theory Spec2Isabelle
  imports Complex_Main "HOL-Library.Multiset"
begin

section \<open>Library behaviour the handlers rely on\<close>

text \<open>
  JavaScript numbers are taken as real numbers (no rounding). \<open>NaN\<close>, which the code
  under study returns where it averages an empty array or something that is no number,
  is a value of its own.
\<close>

datatype number = NaN | Num real

text \<open>
  lodash \<open>_.orderBy(xs, key, 'desc')\<close>: a stable sort, largest key first; elements with
  equal keys keep their relative order. Each element is put in front of the first element
  whose key is not larger than its own.
\<close>

fun insert_desc :: "('a \<Rightarrow> 'k::linorder) \<Rightarrow> 'a \<Rightarrow> 'a list \<Rightarrow> 'a list" where
  "insert_desc key x [] = [x]"
| "insert_desc key x (y # ys) =
     (if key y \<le> key x then x # y # ys else y # insert_desc key x ys)"

definition orderBy_desc :: "('a \<Rightarrow> 'k::linorder) \<Rightarrow> 'a list \<Rightarrow> 'a list" where
  "orderBy_desc key xs = foldr (insert_desc key) xs []"

text \<open>
  What reading a property of a plain object can give in the code under study: a number,
  or a member of \<open>Object.prototype\<close> (a function, or the prototype object itself for
  \<open>__proto__\<close>). \<open>OtherValue\<close> stands for such a member and for the string that \<open>+\<close>
  makes of one and anything else; such a string holds the text of the function or
  \<open>[object Object]\<close>, so it never reads as a number.
\<close>

datatype jsvalue = NumberValue real | OtherValue

text \<open>
  The names a plain object inherits from \<open>Object.prototype\<close>: the operator \<open>in\<close> holds
  for them on every plain object.
\<close>

definition Object_prototype :: "string list" where
  "Object_prototype =
     [''constructor'', ''__defineGetter__'', ''__defineSetter__'', ''hasOwnProperty'',
      ''__lookupGetter__'', ''__lookupSetter__'', ''isPrototypeOf'',
      ''propertyIsEnumerable'', ''toString'', ''valueOf'', ''__proto__'',
      ''toLocaleString'']"

text \<open>\<open>a + b\<close>: addition of two numbers, concatenation of strings otherwise.\<close>

fun js_plus :: "jsvalue \<Rightarrow> jsvalue \<Rightarrow> jsvalue" where
  "js_plus (NumberValue a) (NumberValue b) = NumberValue (a + b)"
| "js_plus a b = OtherValue"

text \<open>\<open>a / n\<close> for a number \<open>n\<close> that is not zero: \<open>NaN\<close> unless \<open>a\<close> is a number.\<close>

fun js_divide :: "jsvalue \<Rightarrow> real \<Rightarrow> number" where
  "js_divide (NumberValue a) n = Num (a / n)"
| "js_divide OtherValue n = NaN"

text \<open>
  lodash \<open>_.mean(xs)\<close>: \<open>NaN\<close> on an empty array; otherwise the elements are added from
  left to right, starting from the first one, and the total is divided by the length.
\<close>

fun lodash_mean :: "jsvalue list \<Rightarrow> number" where
  "lodash_mean [] = NaN"
| "lodash_mean (x # xs) = js_divide (foldl js_plus x xs) (real (length (x # xs)))"

section \<open>helpers: lexile calibration and match score\<close>

text \<open>
  Modelled from the spec: the declarations of \<open>IBookReview\<close> (\<open>data/book_reviews\<close>),
  \<open>IBook\<close> (\<open>data/books\<close>) and \<open>GenreInterestMap\<close> are not among the sources. The
  records hold the fields the helpers read, as the data model of the specification lists
  them.

  \<open>date_submitted\<close> and \<open>date_created\<close> are ISO-8601 UTC strings of fixed width in the
  source; they are represented by the instant they denote, in milliseconds, whose order
  is the order of those strings.
\<close>

record IBookReview =
  book_lexile_measure :: real
  comprehension :: real
  date_submitted :: int

definition computeCurrentLexileMeasure :: "real \<Rightarrow> IBookReview list \<Rightarrow> real" where
  "computeCurrentLexileMeasure initialLexileMeasure bookReviews =
     (if length bookReviews < 3 then initialLexileMeasure
      else
        let recentReviews = take 3 (orderBy_desc date_submitted bookReviews)
        in foldl (\<lambda>total review.
                    let adjustedLexileSignal =
                          book_lexile_measure review + 50 * (comprehension review - 4)
                    in total + adjustedLexileSignal)
                 0 recentReviews
           / real (length recentReviews))"

text \<open>
  A genre-interest map is a plain object keyed by genre id, given by its own keys.
  \<open>key in obj\<close> holds for an own key and for a name inherited from \<open>Object.prototype\<close>;
  \<open>obj[key]\<close> is then the own number or, for a name that is inherited only, the
  inherited member. The code reads \<open>obj[key]\<close> only where \<open>key in obj\<close> holds.
\<close>

type_synonym GenreInterestMap = "string \<rightharpoonup> real"

record IBook =
  book_oid :: string
  genres :: "string list"
  amazon_popularity :: real

definition has_property :: "GenreInterestMap \<Rightarrow> string \<Rightarrow> bool" where
  "has_property obj key =
     (case obj key of Some v \<Rightarrow> True | None \<Rightarrow> key \<in> set Object_prototype)"

definition get_property :: "GenreInterestMap \<Rightarrow> string \<Rightarrow> jsvalue" where
  "get_property obj key = (case obj key of Some v \<Rightarrow> NumberValue v | None \<Rightarrow> OtherValue)"

definition userInterestsInGenres :: "GenreInterestMap \<Rightarrow> IBook \<Rightarrow> jsvalue list" where
  "userInterestsInGenres genreInterests book =
     map (\<lambda>genreId.
            if has_property genreInterests genreId
            then get_property genreInterests genreId
            else NumberValue 3)
         (genres book)"

definition computeMatchScore :: "GenreInterestMap \<Rightarrow> IBook \<Rightarrow> number" where
  "computeMatchScore genreInterests book =
     (case lodash_mean (userInterestsInGenres genreInterests book) of
        NaN \<Rightarrow> NaN
      | Num interestFactor \<Rightarrow> Num ((amazon_popularity book * interestFactor) / 20))"

text \<open>The adjusted signal of one review, in the words of the specification.\<close>

definition adjusted_signal :: "IBookReview \<Rightarrow> real" where
  "adjusted_signal r = book_lexile_measure r + 50 * (comprehension r - 4)"

text \<open>The interest a student has in one genre: the mapped level, 3 when unmapped.\<close>

definition interest_in :: "GenreInterestMap \<Rightarrow> string \<Rightarrow> real" where
  "interest_in gi g = (case gi g of Some v \<Rightarrow> v | None \<Rightarrow> 3)"

text \<open>
  The books on which the lookup reads numbers only: every genre that is a name inherited
  from \<open>Object.prototype\<close> is a key of the map.
\<close>

definition reads_numbers :: "GenreInterestMap \<Rightarrow> IBook \<Rightarrow> bool" where
  "reads_numbers gi book \<longleftrightarrow>
     list_all (\<lambda>g. g \<in> set Object_prototype \<longrightarrow> gi g \<noteq> None) (genres book)"

section \<open>models\<close>

text \<open>
  Modelled from the spec: the declarations of \<open>models/user\<close>, \<open>models/quiz\<close> and
  \<open>models/quiz_submission\<close> are not among the sources. The records below hold the
  fields that the data model of the specification lists and that the routes read.

  The roles the routes compare against are \<open>STUDENT\<close> and \<open>ADMIN\<close>; any further role
  is \<open>OTHER\<close>. The field \<open>_id\<close> of a document is written \<open>\<dots>_oid\<close>, the field \<open>type\<close> of
  a token, user or question \<open>\<dots>_type\<close>.
\<close>

datatype UserType = STUDENT | ADMIN | OTHER string

record IUser =
  user_oid :: string
  user_type :: UserType

record IAuthToken =
  token_oid :: string
  token_type :: UserType

text \<open>A question carries its type tag, its prompt and the fields its type owns.\<close>

record 'f IQuestion =
  question_type :: string
  prompt :: string
  question_fields :: 'f

record 'f IQuiz =
  quiz_oid :: string
  questions :: "'f IQuestion list"
  quiz_book_id :: "string option"
  quiz_date_created :: int

text \<open>
  The body of a submission request: three ids and the answers. \<open>valBody\<close> checks the
  ids and lets any value pass as \<open>answers\<close>; the model takes the answers to be an array
  of payloads of any shape, the ordered sequence that the data model of the
  specification gives them. A body whose \<open>answers\<close> is no array is outside the model.
\<close>

record 'a IQuizSubmissionBody =
  quiz_id :: string
  student_id :: string
  book_id :: string
  answers :: "'a list"

text \<open>
  A submission is the request body extended by the fields the route computes;
  \<open>_id\<close> is given by the data layer on creation and \<open>comprehension\<close> by a later update,
  so both are optional.
\<close>

record 'a IQuizSubmission = "'a IQuizSubmissionBody" +
  date_created :: int
  score :: real
  passed :: bool
  submission_oid :: "string option"
  submission_comprehension :: "nat option"

datatype error = BadRequestError string | ForbiddenError string | ResourceNotFoundError string

section \<open>routes/quizzes\<close>

text \<open>
  What \<open>QuizRoutes\<close> is given and imports, none of it among the sources and all of it
  taken as a parameter: the read operations of the data layer (\<open>null\<close> is \<open>None\<close>), the
  two functions of \<open>QuizGraderInstance\<close>, the constants of \<open>constants\<close>, the two
  readings of the clock (\<open>moment()\<close> in the cooldown check and \<open>new Date()\<close> when the
  submission is built) and the rendering of an instant as an ISO string.
\<close>

record ('a, 'f) collaborators =
  getUserById :: "string \<Rightarrow> IUser option"
  getSubmissionsForStudent :: "string \<Rightarrow> 'a IQuizSubmission list"
  getSubmissionById :: "string \<Rightarrow> 'a IQuizSubmission option"
  getBook :: "string \<Rightarrow> IBook option"
  getQuizById :: "string \<Rightarrow> 'f IQuiz option"
  isAnswerSchemaValid :: "string \<Rightarrow> 'a \<Rightarrow> string option"
  gradeQuiz :: "'f IQuiz \<Rightarrow> 'a list \<Rightarrow> real"
  PassingQuizGrade :: real
  MaxNumQuizAttempts :: nat
  MinHoursBetweenBookQuizAttempt :: int
  moment_now :: int
  new_Date :: int
  toISOString :: "int \<Rightarrow> string"

text \<open>Decimal rendering of a length inside a template string.\<close>

definition digit :: "nat \<Rightarrow> char" where
  "digit d = char_of (d + 48)"

fun decimal :: "nat \<Rightarrow> string" where
  "decimal n = (if n div 10 = 0 then [digit n] else decimal (n div 10) @ [digit (n mod 10)])"

declare decimal.simps [simp del]

text \<open>
  The loop over the questions that checks each answer against its question's type. It is
  entered only when there are as many answers as questions, so it runs over the pairs
  at equal positions and stops at the first invalid one.
\<close>

fun verifyAnswerSchemas ::
  "('a, 'f) collaborators \<Rightarrow> ('f IQuestion \<times> 'a) list \<Rightarrow> error option" where
  "verifyAnswerSchemas c [] = None"
| "verifyAnswerSchemas c ((question, answer) # rest) =
     (case isAnswerSchemaValid c (question_type question) answer of
        Some errorMsg \<Rightarrow>
          Some (BadRequestError
            (''The answer to question '' @ [CHR 0x27] @ prompt question @ [CHR 0x27] @
             '' of type '' @ question_type question @
             '' has invalid schema. Error: '' @ errorMsg))
      | None \<Rightarrow> verifyAnswerSchemas c rest)"

text \<open>
  The asynchronous handler of \<open>submitQuiz\<close>. \<open>Inl\<close> is the error thrown; \<open>Inr s\<close> means
  that \<open>quizData.submitQuiz(s)\<close> is called with the submission \<open>s\<close>. A guarded block
  that may throw is a \<open>case\<close> over what it throws. \<open>mostRecentSubmission\<close> is element 0
  of the ordered submissions, read for a non-empty array only; \<open>mustWaitTill\<close> is
  \<open>moment(mostRecentSubmission.date_created).add(MinHoursBetweenBookQuizAttempt, 'h')\<close>.
\<close>

definition submitQuiz_handler ::
  "('a, 'f) collaborators \<Rightarrow> 'a IQuizSubmissionBody \<Rightarrow> error + 'a IQuizSubmission" where
  "submitQuiz_handler c body =
     (case getUserById c (student_id body) of
        None \<Rightarrow> Inl (BadRequestError (''User '' @ student_id body @ '' does not exist.''))
      | Some user \<Rightarrow>
        if user_type user \<noteq> STUDENT
        then Inl (BadRequestError (''User '' @ student_id body @ '' is not a student.''))
        else
          let submissions = getSubmissionsForStudent c (student_id body) in
          case (if submissions \<noteq> [] then
                  let mostRecentSubmission = hd (orderBy_desc date_created submissions);
                      mustWaitTill = date_created mostRecentSubmission
                                       + MinHoursBetweenBookQuizAttempt c * 3600000
                  in if moment_now c < mustWaitTill
                     then Some (ForbiddenError
                            (''User must wait till '' @ toISOString c mustWaitTill @
                             '' to attempt another quiz.''))
                     else None
                else None) of
            Some thrown \<Rightarrow> Inl thrown
          | None \<Rightarrow>
            let prevSubmissionsForBook = filter (\<lambda>s. book_id s = book_id body) submissions in
            case (if prevSubmissionsForBook \<noteq> [] then
                    let prevPassedSubmissions = find passed prevSubmissionsForBook
                    in if prevPassedSubmissions \<noteq> None
                       then Some (ForbiddenError
                              (''User has already passed quiz for book '' @ book_id body))
                       else if MaxNumQuizAttempts c \<le> length prevSubmissionsForBook
                       then Some (ForbiddenError
                              (''User has exhausted all attempts to pass quiz for book '' @
                               book_id body))
                       else None
                  else None) of
              Some thrown \<Rightarrow> Inl thrown
            | None \<Rightarrow>
              case getBook c (book_id body) of
                None \<Rightarrow> Inl (BadRequestError (''No book with id '' @ book_id body @ '' exists''))
              | Some book \<Rightarrow>
                case getQuizById c (quiz_id body) of
                  None \<Rightarrow>
                    Inl (BadRequestError (''No quiz with id '' @ quiz_id body @ '' exists''))
                | Some quiz \<Rightarrow>
                  if length (questions quiz) \<noteq> length (answers body)
                  then Inl (BadRequestError
                         (''There are '' @ decimal (length (questions quiz)) @
                          '' quiz questions, '' @ [CHR 0x0A] @ ''            yet '' @
                          decimal (length (answers body)) @ '' answers were submitted''))
                  else
                    case verifyAnswerSchemas c (zip (questions quiz) (answers body)) of
                      Some thrown \<Rightarrow> Inl thrown
                    | None \<Rightarrow>
                      let quizScore = gradeQuiz c quiz (answers body) in
                      Inr \<lparr>quiz_id = quiz_id body, student_id = student_id body,
                           book_id = book_id body, answers = answers body,
                           date_created = new_Date c,
                           score = quizScore,
                           passed = (PassingQuizGrade c \<le> quizScore),
                           submission_oid = None,
                           submission_comprehension = None\<rparr>)"

text \<open>
  The route \<open>submitQuiz\<close> after authentication and body validation: the middleware that
  compares the token with the body, then the handler.
\<close>

definition submitQuiz ::
  "('a, 'f) collaborators \<Rightarrow> IAuthToken \<Rightarrow> 'a IQuizSubmissionBody \<Rightarrow>
   error + 'a IQuizSubmission" where
  "submitQuiz c authToken body =
     (if token_type authToken = STUDENT \<and> token_oid authToken \<noteq> student_id body
      then Inl (BadRequestError ''Students cannot submit quizzes for other students'')
      else submitQuiz_handler c body)"

text \<open>
  The route \<open>setComprehensionForSubmission\<close> after authentication and body validation,
  which admits the ratings 1 to 5 only. \<open>Inr u\<close> means that
  \<open>quizData.updateQuizSubmission(u)\<close> is called with the document \<open>u\<close>.
\<close>

definition setComprehensionForSubmission ::
  "('a, 'f) collaborators \<Rightarrow> IAuthToken \<Rightarrow> string \<Rightarrow> nat \<Rightarrow> error + 'a IQuizSubmission" where
  "setComprehensionForSubmission c authToken submissionId comprehension' =
     (case getSubmissionById c submissionId of
        None \<Rightarrow>
          Inl (ResourceNotFoundError
            (''Quiz submission with id '' @ submissionId @ '' does not exist.''))
      | Some submission \<Rightarrow>
        if token_type authToken = STUDENT \<and> token_oid authToken \<noteq> student_id submission
        then Inl (BadRequestError
               ''Students cannot update comprehension for submissions by other students'')
        else
          let updatedSubmission = submission\<lparr>submission_comprehension := Some comprehension'\<rparr>
          in Inr updatedSubmission)"

section \<open>The eligibility policy, check by check\<close>

text \<open>
  The definitions of this section are not translations of the source: they state the
  policy that the route is compared with. Each check of the policy stands on its own, as
  a function of the request and of what the data layer holds: \<open>None\<close> when the check
  passes, its failure reason otherwise. The most recent submission is the one with the
  largest \<open>date_created\<close>.
\<close>

definition identity_check :: "IAuthToken \<Rightarrow> 'a IQuizSubmissionBody \<Rightarrow> error option" where
  "identity_check authToken body =
     (if token_type authToken = STUDENT \<and> token_oid authToken \<noteq> student_id body
      then Some (BadRequestError ''Students cannot submit quizzes for other students'')
      else None)"

definition student_check ::
  "('a, 'f) collaborators \<Rightarrow> 'a IQuizSubmissionBody \<Rightarrow> error option" where
  "student_check c body =
     (case getUserById c (student_id body) of
        None \<Rightarrow> Some (BadRequestError (''User '' @ student_id body @ '' does not exist.''))
      | Some user \<Rightarrow>
          if user_type user = STUDENT then None
          else Some (BadRequestError (''User '' @ student_id body @ '' is not a student.'')))"

definition mustWaitUntil :: "('a, 'f) collaborators \<Rightarrow> 'a IQuizSubmission list \<Rightarrow> int" where
  "mustWaitUntil c submissions =
     Max (set (map date_created submissions)) + MinHoursBetweenBookQuizAttempt c * 3600000"

definition cooldown_check ::
  "('a, 'f) collaborators \<Rightarrow> 'a IQuizSubmissionBody \<Rightarrow> error option" where
  "cooldown_check c body =
     (let submissions = getSubmissionsForStudent c (student_id body) in
      if submissions \<noteq> [] \<and> moment_now c < mustWaitUntil c submissions
      then Some (ForbiddenError
             (''User must wait till '' @ toISOString c (mustWaitUntil c submissions) @
              '' to attempt another quiz.''))
      else None)"

definition already_passed_check ::
  "('a, 'f) collaborators \<Rightarrow> 'a IQuizSubmissionBody \<Rightarrow> error option" where
  "already_passed_check c body =
     (if \<exists>s \<in> set (getSubmissionsForStudent c (student_id body)).
           book_id s = book_id body \<and> passed s
      then Some (ForbiddenError (''User has already passed quiz for book '' @ book_id body))
      else None)"

definition attempts_check ::
  "('a, 'f) collaborators \<Rightarrow> 'a IQuizSubmissionBody \<Rightarrow> error option" where
  "attempts_check c body =
     (let attempts = length (filter (\<lambda>s. book_id s = book_id body)
                               (getSubmissionsForStudent c (student_id body)))
      in if 0 < attempts \<and> MaxNumQuizAttempts c \<le> attempts
         then Some (ForbiddenError
                (''User has exhausted all attempts to pass quiz for book '' @ book_id body))
         else None)"

definition book_check ::
  "('a, 'f) collaborators \<Rightarrow> 'a IQuizSubmissionBody \<Rightarrow> error option" where
  "book_check c body =
     (case getBook c (book_id body) of
        None \<Rightarrow> Some (BadRequestError (''No book with id '' @ book_id body @ '' exists''))
      | Some book \<Rightarrow> None)"

definition quiz_check ::
  "('a, 'f) collaborators \<Rightarrow> 'a IQuizSubmissionBody \<Rightarrow> error option" where
  "quiz_check c body =
     (case getQuizById c (quiz_id body) of
        None \<Rightarrow> Some (BadRequestError (''No quiz with id '' @ quiz_id body @ '' exists''))
      | Some quiz \<Rightarrow> None)"

definition shape_check ::
  "('a, 'f) collaborators \<Rightarrow> 'a IQuizSubmissionBody \<Rightarrow> error option" where
  "shape_check c body =
     (case getQuizById c (quiz_id body) of
        None \<Rightarrow> None
      | Some quiz \<Rightarrow>
          if length (questions quiz) = length (answers body) then None
          else Some (BadRequestError
                 (''There are '' @ decimal (length (questions quiz)) @
                  '' quiz questions, '' @ [CHR 0x0A] @ ''            yet '' @
                  decimal (length (answers body)) @ '' answers were submitted'')))"

text \<open>The first failure reason of a list of checks, in the order of the list.\<close>

fun first_failure :: "error option list \<Rightarrow> error option" where
  "first_failure [] = None"
| "first_failure (None # checks) = first_failure checks"
| "first_failure (Some e # checks) = Some e"

definition answer_check ::
  "('a, 'f) collaborators \<Rightarrow> 'f IQuestion \<times> 'a \<Rightarrow> error option" where
  "answer_check c qa =
     (case isAnswerSchemaValid c (question_type (fst qa)) (snd qa) of
        None \<Rightarrow> None
      | Some errorMsg \<Rightarrow>
          Some (BadRequestError
            (''The answer to question '' @ [CHR 0x27] @ prompt (fst qa) @ [CHR 0x27] @
             '' of type '' @ question_type (fst qa) @
             '' has invalid schema. Error: '' @ errorMsg)))"

definition answers_check ::
  "('a, 'f) collaborators \<Rightarrow> 'a IQuizSubmissionBody \<Rightarrow> error option" where
  "answers_check c body =
     (case getQuizById c (quiz_id body) of
        None \<Rightarrow> None
      | Some quiz \<Rightarrow>
          first_failure (map (answer_check c) (zip (questions quiz) (answers body))))"

text \<open>
  The order in which \<open>submitQuiz\<close> evaluates the checks: the book and the quiz are looked
  up after the attempt-exhaustion check.
\<close>

definition checks_in_order ::
  "('a, 'f) collaborators \<Rightarrow> IAuthToken \<Rightarrow> 'a IQuizSubmissionBody \<Rightarrow> error option list" where
  "checks_in_order c authToken body =
     [identity_check authToken body, student_check c body, cooldown_check c body,
      already_passed_check c body, attempts_check c body, book_check c body,
      quiz_check c body, shape_check c body, answers_check c body]"

text \<open>
  The order of the checks as the specification lists them: the existence of the student,
  the book and the quiz comes before the cooldown check.
\<close>

definition checks_in_spec_order ::
  "('a, 'f) collaborators \<Rightarrow> IAuthToken \<Rightarrow> 'a IQuizSubmissionBody \<Rightarrow> error option list" where
  "checks_in_spec_order c authToken body =
     [identity_check authToken body, student_check c body, book_check c body,
      quiz_check c body, cooldown_check c body, already_passed_check c body,
      attempts_check c body, shape_check c body, answers_check c body]"

text \<open>
  The position in \<open>checks_in_order\<close> of the check a failure reason belongs to, read off
  the kind of the error and the first words of its message.
\<close>

definition reason_index :: "error \<Rightarrow> nat" where
  "reason_index e =
     (case e of
        BadRequestError m \<Rightarrow>
          (if take 4 m = ''Stud'' then 0
           else if take 4 m = ''User'' then 1
           else if take 4 m = ''No b'' then 5
           else if take 4 m = ''No q'' then 6
           else if take 4 m = ''Ther'' then 7
           else 8)
      | ForbiddenError m \<Rightarrow>
          (if take 10 m = ''User must '' then 2
           else if take 10 m = ''User has a'' then 3
           else 4)
      | ResourceNotFoundError m \<Rightarrow> 9)"

text \<open>The submission built from a request, its quiz, the grader and the clock.\<close>

definition graded_submission ::
  "('a, 'f) collaborators \<Rightarrow> 'a IQuizSubmissionBody \<Rightarrow> 'f IQuiz \<Rightarrow> 'a IQuizSubmission" where
  "graded_submission c body quiz =
     \<lparr>quiz_id = quiz_id body, student_id = student_id body, book_id = book_id body,
      answers = answers body,
      date_created = new_Date c,
      score = gradeQuiz c quiz (answers body),
      passed = (PassingQuizGrade c \<le> gradeQuiz c quiz (answers body)),
      submission_oid = None,
      submission_comprehension = None\<rparr>"

section \<open>Example data\<close>

definition reviews_two :: "IBookReview list" where
  "reviews_two =
     [\<lparr>book_lexile_measure = 600, comprehension = 4, date_submitted = 10\<rparr>,
      \<lparr>book_lexile_measure = 700, comprehension = 5, date_submitted = 30\<rparr>]"

definition reviews_four :: "IBookReview list" where
  "reviews_four =
     [\<lparr>book_lexile_measure = 600, comprehension = 4, date_submitted = 10\<rparr>,
      \<lparr>book_lexile_measure = 700, comprehension = 5, date_submitted = 30\<rparr>,
      \<lparr>book_lexile_measure = 500, comprehension = 2, date_submitted = 20\<rparr>,
      \<lparr>book_lexile_measure = 900, comprehension = 3, date_submitted = 40\<rparr>]"

definition reviews_all_four :: "IBookReview list" where
  "reviews_all_four =
     [\<lparr>book_lexile_measure = 600, comprehension = 4, date_submitted = 10\<rparr>,
      \<lparr>book_lexile_measure = 750, comprehension = 4, date_submitted = 30\<rparr>,
      \<lparr>book_lexile_measure = 900, comprehension = 4, date_submitted = 20\<rparr>]"

definition book_two_genres :: IBook where
  "book_two_genres =
     \<lparr>book_oid = ''book-1'', genres = [''fantasy'', ''mystery''], amazon_popularity = 4\<rparr>"

definition book_more_popular :: IBook where
  "book_more_popular =
     \<lparr>book_oid = ''book-2'', genres = [''fantasy'', ''mystery''], amazon_popularity = 5\<rparr>"

definition book_one_genre :: IBook where
  "book_one_genre = \<lparr>book_oid = ''book-3'', genres = [''fantasy''], amazon_popularity = 5\<rparr>"

definition book_no_genres :: IBook where
  "book_no_genres = \<lparr>book_oid = ''book-4'', genres = [], amazon_popularity = 4\<rparr>"

definition book_inherited_name :: IBook where
  "book_inherited_name =
     \<lparr>book_oid = ''book-5'', genres = [''constructor''], amazon_popularity = 4\<rparr>"

definition book_inherited_name_popular :: IBook where
  "book_inherited_name_popular =
     \<lparr>book_oid = ''book-6'', genres = [''constructor''], amazon_popularity = 5\<rparr>"

definition no_interests :: GenreInterestMap where
  "no_interests = Map.empty"

definition likes_fantasy :: GenreInterestMap where
  "likes_fantasy = [''fantasy'' \<mapsto> 4]"

definition loves_both :: GenreInterestMap where
  "loves_both = [''fantasy'' \<mapsto> 4, ''mystery'' \<mapsto> 4]"

text \<open>
  A rendering of instants as \<open>toISOString\<close> gives it for the years 0000 to 9999:
  \<open>YYYY-MM-DDTHH:mm:ss.sssZ\<close> in UTC, from the milliseconds since 1970-01-01.
\<close>

definition pad :: "nat \<Rightarrow> int \<Rightarrow> string" where
  "pad width n =
     (let digits = decimal (nat n)
      in replicate (width - length digits) (CHR ''0'') @ digits)"

definition iso_utc :: "int \<Rightarrow> string" where
  "iso_utc t =
     (let days = t div 86400000; ms = t mod 86400000;
          z = days + 719468;
          era = z div 146097; doe = z mod 146097;
          yoe = (doe - doe div 1460 + doe div 36524 - doe div 146096) div 365;
          doy = doe - (365 * yoe + yoe div 4 - yoe div 100);
          mp = (5 * doy + 2) div 153;
          d = doy - (153 * mp + 2) div 5 + 1;
          m = (if mp < 10 then mp + 3 else mp - 9);
          y = yoe + era * 400 + (if m \<le> 2 then 1 else 0)
      in pad 4 y @ ''-'' @ pad 2 m @ ''-'' @ pad 2 d @ ''T'' @
         pad 2 (ms div 3600000) @ '':'' @ pad 2 (ms mod 3600000 div 60000) @ '':'' @
         pad 2 (ms mod 60000 div 1000) @ ''.'' @ pad 3 (ms mod 1000) @ ''Z'')"

text \<open>
  A small platform: one student, one administrator, two books, one quiz of two
  questions. An answer is a string, invalid when empty; the grader gives the percentage
  of answers equal to \<open>yes\<close>. The platform is given the current instant and the stored
  submissions.
\<close>

definition the_quiz :: "unit IQuiz" where
  "the_quiz =
     \<lparr>quiz_oid = ''quiz-1'',
      questions =
        [\<lparr>question_type = ''short-answer'', prompt = ''Who?'', question_fields = ()\<rparr>,
         \<lparr>question_type = ''short-answer'', prompt = ''Where?'', question_fields = ()\<rparr>],
      quiz_book_id = None,
      quiz_date_created = 0\<rparr>"

definition platform ::
  "int \<Rightarrow> string IQuizSubmission list \<Rightarrow> (string, unit) collaborators" where
  "platform now stored =
     \<lparr>getUserById =
        [''stu-1'' \<mapsto> \<lparr>user_oid = ''stu-1'', user_type = STUDENT\<rparr>,
         ''adm-1'' \<mapsto> \<lparr>user_oid = ''adm-1'', user_type = ADMIN\<rparr>],
      getSubmissionsForStudent = (\<lambda>studentId. filter (\<lambda>s. student_id s = studentId) stored),
      getSubmissionById = (\<lambda>submissionId. find (\<lambda>s. submission_oid s = Some submissionId) stored),
      getBook =
        [''book-A'' \<mapsto> \<lparr>book_oid = ''book-A'', genres = [''fantasy''], amazon_popularity = 4\<rparr>,
         ''book-B'' \<mapsto> \<lparr>book_oid = ''book-B'', genres = [''mystery''], amazon_popularity = 3\<rparr>],
      getQuizById = [''quiz-1'' \<mapsto> the_quiz],
      isAnswerSchemaValid = (\<lambda>questionType answer. if answer = [] then Some ''empty'' else None),
      gradeQuiz =
        (\<lambda>quiz given. 100 * real (length (filter (\<lambda>a. a = ''yes'') given))
                         / real (length (questions quiz))),
      PassingQuizGrade = 80,
      MaxNumQuizAttempts = 3,
      MinHoursBetweenBookQuizAttempt = 24,
      moment_now = now,
      new_Date = now,
      toISOString = iso_utc\<rparr>"

definition stored_submission :: "string \<Rightarrow> string \<Rightarrow> int \<Rightarrow> bool \<Rightarrow> string IQuizSubmission" where
  "stored_submission oid book created has_passed =
     \<lparr>quiz_id = ''quiz-1'', student_id = ''stu-1'', book_id = book,
      answers = [''yes'', ''no''],
      date_created = created,
      score = (if has_passed then 100 else 50),
      passed = has_passed,
      submission_oid = Some oid,
      submission_comprehension = None\<rparr>"

definition request :: "string \<Rightarrow> string list \<Rightarrow> string IQuizSubmissionBody" where
  "request book given =
     \<lparr>quiz_id = ''quiz-1'', student_id = ''stu-1'', book_id = book, answers = given\<rparr>"

definition student_token :: IAuthToken where
  "student_token = \<lparr>token_oid = ''stu-1'', token_type = STUDENT\<rparr>"

definition other_student_token :: IAuthToken where
  "other_student_token = \<lparr>token_oid = ''stu-2'', token_type = STUDENT\<rparr>"

definition admin_token :: IAuthToken where
  "admin_token = \<lparr>token_oid = ''adm-1'', token_type = ADMIN\<rparr>"

text \<open>
  The platform one hour, 23 hours and 25 hours after the student's only submission, made
  at instant 0 for book A, failed or passed.
\<close>

definition hour_1_after_failing :: "(string, unit) collaborators" where
  "hour_1_after_failing = platform 3600000 [stored_submission ''sub-1'' ''book-A'' 0 False]"

definition hour_1_after_passing :: "(string, unit) collaborators" where
  "hour_1_after_passing = platform 3600000 [stored_submission ''sub-1'' ''book-A'' 0 True]"

definition hour_23_after_passing :: "(string, unit) collaborators" where
  "hour_23_after_passing = platform 82800000 [stored_submission ''sub-1'' ''book-A'' 0 True]"

definition hour_25_after_passing :: "(string, unit) collaborators" where
  "hour_25_after_passing = platform 90000000 [stored_submission ''sub-1'' ''book-A'' 0 True]"

section \<open>Properties of the sort\<close>

lemma mset_insert_desc: "mset (insert_desc key x xs) = add_mset x (mset xs)"
  by (induction xs) auto

lemma mset_orderBy_desc: "mset (orderBy_desc key xs) = mset xs"
  by (induction xs) (auto simp: orderBy_desc_def mset_insert_desc)

lemma set_orderBy_desc: "set (orderBy_desc key xs) = set xs"
  by (metis mset_orderBy_desc set_mset_mset)

lemma length_orderBy_desc: "length (orderBy_desc key xs) = length xs"
  by (metis mset_orderBy_desc size_mset)

lemma sorted_insert_desc:
  "sorted_wrt (\<lambda>a b. key b \<le> key a) xs \<Longrightarrow> sorted_wrt (\<lambda>a b. key b \<le> key a) (insert_desc key x xs)"
proof (induction xs)
  case Nil
  then show ?case by simp
next
  case (Cons y ys)
  have "set (insert_desc key x ys) = insert x (set ys)"
    by (metis mset_insert_desc set_mset_add_mset_insert set_mset_mset)
  with Cons show ?case by auto
qed

lemma sorted_orderBy_desc: "sorted_wrt (\<lambda>a b. key b \<le> key a) (orderBy_desc key xs)"
proof (induction xs)
  case Nil
  then show ?case by (simp add: orderBy_desc_def)
next
  case (Cons x xs)
  then show ?case using sorted_insert_desc [of key "orderBy_desc key xs" x]
    by (simp add: orderBy_desc_def)
qed

lemma take_dominates_drop:
  assumes "sorted_wrt R xs"
  shows "\<forall>t\<in>set (take n xs). \<forall>r\<in>set (drop n xs). R t r"
proof -
  from assms have "sorted_wrt R (take n xs @ drop n xs)" by simp
  then show ?thesis unfolding sorted_wrt_append by blast
qed

lemma hd_orderBy_desc_Max:
  assumes "xs \<noteq> []"
  shows "key (hd (orderBy_desc key xs)) = Max (set (map key xs))"
proof -
  obtain y ys where o: "orderBy_desc key xs = y # ys"
    using assms length_orderBy_desc [of key xs] by (cases "orderBy_desc key xs") auto
  have "sorted_wrt (\<lambda>a b. key b \<le> key a) (y # ys)"
    using sorted_orderBy_desc [of key xs] o by simp
  then have "\<forall>z\<in>set (y # ys). key z \<le> key y" by auto
  moreover have sets: "set xs = set (y # ys)"
    using set_orderBy_desc [of key xs] o by simp
  ultimately have ub: "\<forall>z\<in>set xs. key z \<le> key y" by blast
  have "y \<in> set xs" using sets by simp
  then have "Max (key ` set xs) = key y"
    using ub by (intro Max_eqI) auto
  then show ?thesis using o by simp
qed

lemma sum_list_orderBy_desc:
  "sum_list (map f (orderBy_desc key xs)) = sum_list (map f xs)" for f :: "'a \<Rightarrow> real"
proof -
  have "mset (map f (orderBy_desc key xs)) = mset (map f xs)"
    by (simp add: mset_orderBy_desc)
  then show ?thesis by (metis sum_mset_sum_list)
qed

lemma adjusted_foldl:
  "foldl (\<lambda>total review.
            let adjustedLexileSignal = book_lexile_measure review + 50 * (comprehension review - 4)
            in total + adjustedLexileSignal) a xs
   = a + sum_list (map adjusted_signal xs)" for a :: real
  by (induction xs arbitrary: a) (simp_all add: adjusted_signal_def)

lemma lexile_sum:
  assumes len: "3 \<le> length rs"
  shows "computeCurrentLexileMeasure m rs =
     sum_list (map adjusted_signal (take 3 (orderBy_desc date_submitted rs))) / 3"
proof -
  have l3: "length (take 3 (orderBy_desc date_submitted rs)) = 3"
    using len by (simp add: length_orderBy_desc)
  have "computeCurrentLexileMeasure m rs =
      (0 + sum_list (map adjusted_signal (take 3 (orderBy_desc date_submitted rs))))
        / real (length (take 3 (orderBy_desc date_submitted rs)))"
    using len unfolding computeCurrentLexileMeasure_def adjusted_foldl
    by (simp only: Let_def not_less [symmetric] if_False)
  then show ?thesis unfolding l3 by simp
qed

section \<open>Lexile calibration\<close>

text \<open>
  Claim C5. With fewer than three reviews \<open>computeCurrentLexileMeasure\<close> returns the
  initial measure unchanged. With three or more it returns the arithmetic mean of the
  adjusted signal \<open>book_lexile_measure + 50 * (comprehension - 4)\<close> over the first three
  reviews of the list ordered by \<open>date_submitted\<close>, largest first: that ordering is a
  permutation of the reviews, it is descending, and no review outside the first three has
  a larger \<open>date_submitted\<close> than one inside. With exactly three reviews all rated 4 the
  result is the mean of their \<open>book_lexile_measure\<close> values.
\<close>

theorem computeCurrentLexileMeasure_spec:
  "(length rs < 3 \<longrightarrow> computeCurrentLexileMeasure m rs = m) \<and>
   (3 \<le> length rs \<longrightarrow>
      (let ordered = orderBy_desc date_submitted rs; top = take 3 ordered
       in mset ordered = mset rs \<and>
          sorted_wrt (\<lambda>a b. date_submitted b \<le> date_submitted a) ordered \<and>
          length top = 3 \<and>
          (\<forall>t\<in>set top. \<forall>r\<in>set (drop 3 ordered). date_submitted r \<le> date_submitted t) \<and>
          computeCurrentLexileMeasure m rs = sum_list (map adjusted_signal top) / 3)) \<and>
   (length rs = 3 \<and> (\<forall>r\<in>set rs. comprehension r = 4) \<longrightarrow>
      computeCurrentLexileMeasure m rs = sum_list (map book_lexile_measure rs) / 3)"
proof (intro conjI impI)
  assume "length rs < 3"
  then show "computeCurrentLexileMeasure m rs = m"
    by (simp add: computeCurrentLexileMeasure_def)
next
  assume len: "3 \<le> length rs"
  show "let ordered = orderBy_desc date_submitted rs; top = take 3 ordered
       in mset ordered = mset rs \<and>
          sorted_wrt (\<lambda>a b. date_submitted b \<le> date_submitted a) ordered \<and>
          length top = 3 \<and>
          (\<forall>t\<in>set top. \<forall>r\<in>set (drop 3 ordered). date_submitted r \<le> date_submitted t) \<and>
          computeCurrentLexileMeasure m rs = sum_list (map adjusted_signal top) / 3"
    unfolding Let_def
  proof (intro conjI)
    show "mset (orderBy_desc date_submitted rs) = mset rs"
      by (rule mset_orderBy_desc)
    show "sorted_wrt (\<lambda>a b. date_submitted b \<le> date_submitted a) (orderBy_desc date_submitted rs)"
      by (rule sorted_orderBy_desc)
    show "length (take 3 (orderBy_desc date_submitted rs)) = 3"
      using len by (simp add: length_orderBy_desc)
    show "\<forall>t\<in>set (take 3 (orderBy_desc date_submitted rs)).
            \<forall>r\<in>set (drop 3 (orderBy_desc date_submitted rs)). date_submitted r \<le> date_submitted t"
      by (rule take_dominates_drop [OF sorted_orderBy_desc])
    show "computeCurrentLexileMeasure m rs =
            sum_list (map adjusted_signal (take 3 (orderBy_desc date_submitted rs))) / 3"
      using len by (rule lexile_sum)
  qed
next
  assume h: "length rs = 3 \<and> (\<forall>r\<in>set rs. comprehension r = 4)"
  then have all4: "\<forall>r\<in>set rs. adjusted_signal r = book_lexile_measure r"
    by (simp add: adjusted_signal_def)
  from h have "take 3 (orderBy_desc date_submitted rs) = orderBy_desc date_submitted rs"
    by (simp add: length_orderBy_desc)
  then have "computeCurrentLexileMeasure m rs =
      sum_list (map adjusted_signal (orderBy_desc date_submitted rs)) / 3"
    using h lexile_sum [of rs m] by simp
  also have "\<dots> = sum_list (map adjusted_signal rs) / 3"
    by (simp add: sum_list_orderBy_desc)
  also have "map adjusted_signal rs = map book_lexile_measure rs"
    using all4 by simp
  finally show "computeCurrentLexileMeasure m rs = sum_list (map book_lexile_measure rs) / 3" .
qed

theorem computeCurrentLexileMeasure_spec_witness:
  "length reviews_two < 3 \<and> computeCurrentLexileMeasure 650 reviews_two = 650 \<and>
   3 \<le> length reviews_four \<and> computeCurrentLexileMeasure 650 reviews_four = 2000 / 3 \<and>
   length reviews_all_four = 3 \<and> map comprehension reviews_all_four = [4, 4, 4] \<and>
   computeCurrentLexileMeasure 650 reviews_all_four = 750"
proof -
  have two: "length reviews_two < 3"
    by (simp add: reviews_two_def)
  have four: "3 \<le> length reviews_four"
    by (simp add: reviews_four_def)
  have all_four: "length reviews_all_four = 3 \<and> (\<forall>r\<in>set reviews_all_four. comprehension r = 4)"
    by (simp add: reviews_all_four_def)
  have top: "take 3 (orderBy_desc date_submitted reviews_four) =
      [\<lparr>book_lexile_measure = 900, comprehension = 3, date_submitted = 40\<rparr>,
       \<lparr>book_lexile_measure = 700, comprehension = 5, date_submitted = 30\<rparr>,
       \<lparr>book_lexile_measure = 500, comprehension = 2, date_submitted = 20\<rparr>]"
    by (simp add: reviews_four_def orderBy_desc_def)
  have r2: "computeCurrentLexileMeasure 650 reviews_two = 650"
    using computeCurrentLexileMeasure_spec [of reviews_two 650] two by blast
  have "computeCurrentLexileMeasure 650 reviews_four =
      sum_list (map adjusted_signal (take 3 (orderBy_desc date_submitted reviews_four))) / 3"
    using computeCurrentLexileMeasure_spec [of reviews_four 650] four
    unfolding Let_def by blast
  then have r4: "computeCurrentLexileMeasure 650 reviews_four = 2000 / 3"
    unfolding top by (simp add: adjusted_signal_def)
  have "computeCurrentLexileMeasure 650 reviews_all_four =
      sum_list (map book_lexile_measure reviews_all_four) / 3"
    using computeCurrentLexileMeasure_spec [of reviews_all_four 650] all_four by blast
  then have r3: "computeCurrentLexileMeasure 650 reviews_all_four = 750"
    by (simp add: reviews_all_four_def)
  have "map comprehension reviews_all_four = [4, 4, 4]"
    by (simp add: reviews_all_four_def)
  then show ?thesis using two four all_four r2 r4 r3 by blast
qed

section \<open>Match score\<close>

lemma foldl_js_plus_numbers:
  "foldl js_plus (NumberValue a) (map NumberValue xs) = NumberValue (a + sum_list xs)"
  by (induction xs arbitrary: a) (simp_all add: add.assoc)

lemma js_plus_other: "js_plus a OtherValue = OtherValue"
  by (cases a) simp_all

lemma foldl_js_plus_other: "foldl js_plus OtherValue xs = OtherValue"
  by (induction xs) simp_all

lemma foldl_js_plus_has_other:
  "OtherValue \<in> set xs \<Longrightarrow> foldl js_plus a xs = OtherValue"
proof (induction xs arbitrary: a)
  case Nil
  then show ?case by simp
next
  case (Cons x xs)
  show ?case
  proof (cases "x = OtherValue")
    case True
    then show ?thesis by (simp add: js_plus_other foldl_js_plus_other)
  next
    case False
    then show ?thesis using Cons by simp
  qed
qed

lemma lodash_mean_numbers:
  "xs \<noteq> [] \<Longrightarrow> lodash_mean (map NumberValue xs) = Num (sum_list xs / real (length xs))"
  by (cases xs) (simp_all add: foldl_js_plus_numbers)

lemma lodash_mean_other: "OtherValue \<in> set xs \<Longrightarrow> lodash_mean xs = NaN"
proof (cases xs)
  case Nil
  then show "OtherValue \<in> set xs \<Longrightarrow> lodash_mean xs = NaN" by simp
next
  case (Cons x rest)
  assume "OtherValue \<in> set xs"
  then have "foldl js_plus x rest = OtherValue"
    using Cons by (auto simp: foldl_js_plus_other foldl_js_plus_has_other)
  then show "lodash_mean xs = NaN" using Cons by simp
qed

lemma userInterests_eq:
  assumes "reads_numbers gi book"
  shows "userInterestsInGenres gi book = map NumberValue (map (interest_in gi) (genres book))"
  using assms
  by (auto simp: reads_numbers_def list_all_iff userInterestsInGenres_def interest_in_def
        has_property_def get_property_def split: option.splits)

lemma computeMatchScore_Num:
  assumes "genres book \<noteq> []" and "reads_numbers gi book"
  shows "computeMatchScore gi book =
     Num (amazon_popularity book *
            (sum_list (map (interest_in gi) (genres book)) / real (length (genres book))) / 20)"
proof -
  have "lodash_mean (userInterestsInGenres gi book) =
      Num (sum_list (map (interest_in gi) (genres book))
             / real (length (map (interest_in gi) (genres book))))"
    unfolding userInterests_eq [OF assms(2)]
    using assms(1) by (intro lodash_mean_numbers) simp
  then show ?thesis by (simp add: computeMatchScore_def)
qed

lemma computeMatchScore_inherited:
  assumes "g \<in> set (genres book)" and "gi g = None" and "g \<in> set Object_prototype"
  shows "computeMatchScore gi book = NaN"
proof -
  have "OtherValue \<in> set (userInterestsInGenres gi book)"
    using assms by (force simp: userInterestsInGenres_def has_property_def get_property_def)
  then show ?thesis by (simp add: computeMatchScore_def lodash_mean_other)
qed

lemma sum_list_lower: "\<forall>x\<in>set xs. lo \<le> x \<Longrightarrow> lo * real (length xs) \<le> sum_list xs"
  by (induction xs) (auto simp: algebra_simps)

lemma sum_list_upper: "\<forall>x\<in>set xs. x \<le> hi \<Longrightarrow> sum_list xs \<le> hi * real (length xs)"
  by (induction xs) (auto simp: algebra_simps)

lemma mean_bounds:
  assumes "xs \<noteq> []" and "\<forall>x\<in>set xs. lo \<le> x \<and> x \<le> hi"
  shows "lo \<le> sum_list xs / real (length xs) \<and> sum_list xs / real (length xs) \<le> hi"
proof -
  have pos: "0 < real (length xs)" using assms(1) by simp
  have "lo * real (length xs) \<le> sum_list xs" using assms(2) by (simp add: sum_list_lower)
  moreover have "sum_list xs \<le> hi * real (length xs)" using assms(2) by (simp add: sum_list_upper)
  ultimately show ?thesis using pos by (simp add: pos_le_divide_eq pos_divide_le_eq)
qed

lemma sum_list_pointwise:
  "\<forall>x\<in>set xs. f x \<le> g x \<Longrightarrow> sum_list (map f xs) \<le> sum_list (map g xs)" for f :: "'a \<Rightarrow> real"
  by (induction xs) (auto intro: add_mono)

lemma interest_in_range:
  assumes "\<forall>g\<in>set gs. \<forall>v. gi g = Some v \<longrightarrow> 1 \<le> v \<and> v \<le> 4"
  shows "\<forall>x\<in>set (map (interest_in gi) gs). 1 \<le> x \<and> x \<le> 4"
  using assms by (auto simp: interest_in_def split: option.splits)

lemma score_bounds:
  fixes p f :: real
  assumes "0 \<le> p" "p \<le> 5" "1 \<le> f" "f \<le> 4"
  shows "0 \<le> p * f / 20 \<and> p * f / 20 \<le> 1"
proof -
  have "0 \<le> p * f" using assms by simp
  moreover have "p * f \<le> 5 * 4" using assms by (intro mult_mono) auto
  ultimately show ?thesis by simp
qed

lemma score_mono_left:
  fixes p p' f :: real
  assumes "p \<le> p'" "0 \<le> f"
  shows "p * f / 20 \<le> p' * f / 20"
proof -
  have "p * f \<le> p' * f" using assms by (rule mult_right_mono)
  then show ?thesis by (rule divide_right_mono) simp
qed

lemma score_mono_right:
  fixes p f f' :: real
  assumes "f \<le> f'" "0 \<le> p"
  shows "p * f / 20 \<le> p * f' / 20"
proof -
  have "p * f \<le> p * f'" using assms by (rule mult_left_mono)
  then show ?thesis by (rule divide_right_mono) simp
qed

text \<open>
  Where the lookup reads numbers only, the score is the popularity times the arithmetic
  mean of the per-genre interests (3 for a genre absent from the map) divided by 20, and
  for a popularity in [0, 5] and mapped interests in [1, 4] it lies in [0, 1].
\<close>

lemma computeMatchScore_formula_on_numbers:
  assumes "genres book \<noteq> []"
    and "0 \<le> amazon_popularity book" and "amazon_popularity book \<le> 5"
    and "\<forall>g\<in>set (genres book). \<forall>v. gi g = Some v \<longrightarrow> 1 \<le> v \<and> v \<le> 4"
    and "reads_numbers gi book"
  shows "\<exists>s. computeMatchScore gi book = Num s \<and>
             s = amazon_popularity book *
                   (sum_list (map (interest_in gi) (genres book)) / real (length (genres book)))
                 / 20 \<and>
             0 \<le> s \<and> s \<le> 1"
proof -
  define f where "f = sum_list (map (interest_in gi) (genres book)) / real (length (genres book))"
  have ne: "map (interest_in gi) (genres book) \<noteq> []" using assms(1) by simp
  have f: "1 \<le> f \<and> f \<le> 4"
    using mean_bounds [OF ne interest_in_range [OF assms(4)]] by (simp add: f_def)
  have "0 \<le> amazon_popularity book * f / 20 \<and> amazon_popularity book * f / 20 \<le> 1"
    using assms(2,3) f by (intro score_bounds) auto
  moreover have "computeMatchScore gi book = Num (amazon_popularity book * f / 20)"
    unfolding f_def by (rule computeMatchScore_Num [OF assms(1) assms(5)])
  ultimately show ?thesis unfolding f_def by blast
qed

lemma computeMatchScore_formula_on_numbers_example:
  "genres book_two_genres \<noteq> [] \<and>
   0 \<le> amazon_popularity book_two_genres \<and> amazon_popularity book_two_genres \<le> 5 \<and>
   map likes_fantasy (genres book_two_genres) = [Some 4, None] \<and>
   computeMatchScore likes_fantasy book_two_genres = Num (7 / 10)"
proof -
  have h1: "genres book_two_genres \<noteq> []"
    by (simp add: book_two_genres_def)
  have h2: "0 \<le> amazon_popularity book_two_genres"
    and h3: "amazon_popularity book_two_genres \<le> 5"
    by (simp_all add: book_two_genres_def)
  have h4: "\<forall>g\<in>set (genres book_two_genres). \<forall>v. likes_fantasy g = Some v \<longrightarrow> 1 \<le> v \<and> v \<le> 4"
    by (simp add: book_two_genres_def likes_fantasy_def)
  have h5: "reads_numbers likes_fantasy book_two_genres"
    by (simp add: reads_numbers_def book_two_genres_def likes_fantasy_def Object_prototype_def)
  have "amazon_popularity book_two_genres *
          (sum_list (map (interest_in likes_fantasy) (genres book_two_genres))
             / real (length (genres book_two_genres))) / 20 = 7 / 10"
    by (simp add: book_two_genres_def likes_fantasy_def interest_in_def)
  then have "computeMatchScore likes_fantasy book_two_genres = Num (7 / 10)"
    using computeMatchScore_formula_on_numbers [OF h1 h2 h3 h4 h5] by auto
  moreover have "map likes_fantasy (genres book_two_genres) = [Some 4, None]"
    by (simp add: book_two_genres_def likes_fantasy_def)
  ultimately show ?thesis using h1 h2 h3 by blast
qed

text \<open>
  Claim C6. For every genre-interest map and every book with at least one genre, a
  popularity in [0, 5] and mapped interests in [1, 4], the score is to be the popularity
  times the arithmetic mean of the per-genre interests, 3 for each genre absent from the
  map, divided by 20, a number in [0, 1]. The function does not do so for a genre whose
  id is a name inherited from \<open>Object.prototype\<close> and no key of the map: the test
  \<open>genreId in genreInterests\<close> holds for it, the inherited member is read instead of the
  default 3, and the score is \<open>NaN\<close>. For the map without keys and the book of popularity
  4 with the single genre \<open>constructor\<close> the stated value is 3/5 and the function
  returns \<open>NaN\<close>.
\<close>

theorem computeMatchScore_formula_fails:
  "genres book_inherited_name = [''constructor''] \<and>
   amazon_popularity book_inherited_name = 4 \<and>
   no_interests ''constructor'' = None \<and>
   amazon_popularity book_inherited_name *
     (sum_list (map (interest_in no_interests) (genres book_inherited_name))
        / real (length (genres book_inherited_name))) / 20 = 3 / 5 \<and>
   computeMatchScore no_interests book_inherited_name = NaN"
proof -
  have "amazon_popularity book_inherited_name *
     (sum_list (map (interest_in no_interests) (genres book_inherited_name))
        / real (length (genres book_inherited_name))) / 20 = 3 / 5"
    by (simp add: book_inherited_name_def no_interests_def interest_in_def)
  moreover have "computeMatchScore no_interests book_inherited_name = NaN"
    by (rule computeMatchScore_inherited [of "''constructor''"])
       (simp_all add: book_inherited_name_def no_interests_def Object_prototype_def)
  ultimately show ?thesis
    by (simp add: book_inherited_name_def no_interests_def)
qed

text \<open>
  Where the lookup reads numbers only and the book has at least one genre: with the
  genres and the interest map fixed and interests not negative, a larger popularity never
  gives a smaller score; with the book fixed and its popularity not negative, interests
  that are larger genre by genre never give a smaller score. A book with the single
  genre at interest 4 and popularity 5 scores exactly 1.
\<close>

lemma computeMatchScore_monotone_on_numbers:
  "(genres b \<noteq> [] \<and> genres b' = genres b \<and> reads_numbers gi b \<and>
      (\<forall>g\<in>set (genres b). 0 \<le> interest_in gi g) \<and>
      amazon_popularity b \<le> amazon_popularity b' \<longrightarrow>
      (\<exists>s s'. computeMatchScore gi b = Num s \<and> computeMatchScore gi b' = Num s' \<and> s \<le> s')) \<and>
   (genres b \<noteq> [] \<and> 0 \<le> amazon_popularity b \<and>
      reads_numbers gi b \<and> reads_numbers gi' b \<and>
      (\<forall>g\<in>set (genres b). interest_in gi g \<le> interest_in gi' g) \<longrightarrow>
      (\<exists>s s'. computeMatchScore gi b = Num s \<and> computeMatchScore gi' b = Num s' \<and> s \<le> s')) \<and>
   (genres b = [g] \<and> gi g = Some 4 \<and> amazon_popularity b = 5 \<longrightarrow>
      computeMatchScore gi b = Num 1)"
proof (intro conjI impI)
  assume h: "genres b \<noteq> [] \<and> genres b' = genres b \<and> reads_numbers gi b \<and>
      (\<forall>g\<in>set (genres b). 0 \<le> interest_in gi g) \<and>
      amazon_popularity b \<le> amazon_popularity b'"
  define f where "f = sum_list (map (interest_in gi) (genres b)) / real (length (genres b))"
  have "0 * real (length (map (interest_in gi) (genres b))) \<le> sum_list (map (interest_in gi) (genres b))"
    using h by (intro sum_list_lower) simp
  then have f0: "0 \<le> f" by (simp add: f_def)
  have "amazon_popularity b * f / 20 \<le> amazon_popularity b' * f / 20"
    using h f0 by (intro score_mono_left) auto
  moreover have "computeMatchScore gi b = Num (amazon_popularity b * f / 20)"
    unfolding f_def using h by (intro computeMatchScore_Num) simp_all
  moreover have "reads_numbers gi b'"
    using h by (simp add: reads_numbers_def)
  then have "computeMatchScore gi b' = Num (amazon_popularity b' * f / 20)"
    unfolding f_def using h computeMatchScore_Num [of b' gi] by simp
  ultimately show "\<exists>s s'. computeMatchScore gi b = Num s \<and> computeMatchScore gi b' = Num s' \<and> s \<le> s'"
    by blast
next
  assume h: "genres b \<noteq> [] \<and> 0 \<le> amazon_popularity b \<and>
      reads_numbers gi b \<and> reads_numbers gi' b \<and>
      (\<forall>g\<in>set (genres b). interest_in gi g \<le> interest_in gi' g)"
  define f where "f = sum_list (map (interest_in gi) (genres b)) / real (length (genres b))"
  define f' where "f' = sum_list (map (interest_in gi') (genres b)) / real (length (genres b))"
  have "sum_list (map (interest_in gi) (genres b)) \<le> sum_list (map (interest_in gi') (genres b))"
    using h by (intro sum_list_pointwise) simp
  then have "f \<le> f'" unfolding f_def f'_def by (rule divide_right_mono) simp
  then have "amazon_popularity b * f / 20 \<le> amazon_popularity b * f' / 20"
    using h by (intro score_mono_right) auto
  moreover have "computeMatchScore gi b = Num (amazon_popularity b * f / 20)"
    unfolding f_def using h by (intro computeMatchScore_Num) simp_all
  moreover have "computeMatchScore gi' b = Num (amazon_popularity b * f' / 20)"
    unfolding f'_def using h by (intro computeMatchScore_Num) simp_all
  ultimately show "\<exists>s s'. computeMatchScore gi b = Num s \<and> computeMatchScore gi' b = Num s' \<and> s \<le> s'"
    by blast
next
  assume "genres b = [g] \<and> gi g = Some 4 \<and> amazon_popularity b = 5"
  then show "computeMatchScore gi b = Num 1"
    by (simp add: computeMatchScore_def userInterestsInGenres_def has_property_def
          get_property_def)
qed

lemma computeMatchScore_monotone_on_numbers_example:
  "(\<exists>s s'. computeMatchScore likes_fantasy book_two_genres = Num s \<and>
           computeMatchScore likes_fantasy book_more_popular = Num s' \<and> s \<le> s') \<and>
   (\<exists>s s'. computeMatchScore likes_fantasy book_two_genres = Num s \<and>
           computeMatchScore loves_both book_two_genres = Num s' \<and> s \<le> s') \<and>
   computeMatchScore likes_fantasy book_one_genre = Num 1"
proof -
  have a: "genres book_two_genres \<noteq> [] \<and> genres book_more_popular = genres book_two_genres \<and>
      reads_numbers likes_fantasy book_two_genres \<and>
      (\<forall>g\<in>set (genres book_two_genres). 0 \<le> interest_in likes_fantasy g) \<and>
      amazon_popularity book_two_genres \<le> amazon_popularity book_more_popular"
    by (simp add: book_two_genres_def book_more_popular_def likes_fantasy_def interest_in_def
          reads_numbers_def Object_prototype_def)
  have b: "genres book_two_genres \<noteq> [] \<and> 0 \<le> amazon_popularity book_two_genres \<and>
      reads_numbers likes_fantasy book_two_genres \<and> reads_numbers loves_both book_two_genres \<and>
      (\<forall>g\<in>set (genres book_two_genres). interest_in likes_fantasy g \<le> interest_in loves_both g)"
    by (simp add: book_two_genres_def likes_fantasy_def loves_both_def interest_in_def
          reads_numbers_def Object_prototype_def)
  have c: "genres book_one_genre = [''fantasy''] \<and> likes_fantasy ''fantasy'' = Some 4 \<and>
      amazon_popularity book_one_genre = 5"
    by (simp add: book_one_genre_def likes_fantasy_def)
  show ?thesis
    using a b c
      computeMatchScore_monotone_on_numbers
        [of book_two_genres book_more_popular likes_fantasy loves_both "''fantasy''"]
      computeMatchScore_monotone_on_numbers
        [of book_one_genre book_one_genre likes_fantasy likes_fantasy "''fantasy''"]
    by blast
qed

text \<open>
  Claim C8. The score is to be non-decreasing in the popularity, with the genres and the
  interest map fixed, and non-decreasing in the interests, with the book fixed. The
  function does not do so for a genre whose id is a name inherited from
  \<open>Object.prototype\<close> and no key of the map, where the score is \<open>NaN\<close>, which is not
  below or equal to anything. Two books with the single genre \<open>constructor\<close> and the
  popularities 4 and 5 both score \<open>NaN\<close> on the map without keys, where the scores are
  to be 3/5 and 3/4; the book of popularity 4 scores \<open>NaN\<close> on the map without keys and
  on the map that rates \<open>fantasy\<close> 4, whose interests in \<open>constructor\<close> are both the
  default 3.
\<close>

theorem computeMatchScore_monotone_fails:
  "genres book_inherited_name_popular = genres book_inherited_name \<and>
   genres book_inherited_name = [''constructor''] \<and>
   amazon_popularity book_inherited_name = 4 \<and>
   amazon_popularity book_inherited_name_popular = 5 \<and>
   computeMatchScore no_interests book_inherited_name = NaN \<and>
   computeMatchScore no_interests book_inherited_name_popular = NaN \<and>
   interest_in no_interests ''constructor'' = 3 \<and>
   interest_in likes_fantasy ''constructor'' = 3 \<and>
   computeMatchScore likes_fantasy book_inherited_name = NaN"
proof -
  have "computeMatchScore no_interests book_inherited_name = NaN"
    by (rule computeMatchScore_inherited [of "''constructor''"])
       (simp_all add: book_inherited_name_def no_interests_def Object_prototype_def)
  moreover have "computeMatchScore no_interests book_inherited_name_popular = NaN"
    by (rule computeMatchScore_inherited [of "''constructor''"])
       (simp_all add: book_inherited_name_popular_def no_interests_def Object_prototype_def)
  moreover have "computeMatchScore likes_fantasy book_inherited_name = NaN"
    by (rule computeMatchScore_inherited [of "''constructor''"])
       (simp_all add: book_inherited_name_def likes_fantasy_def Object_prototype_def)
  ultimately show ?thesis
    by (simp add: book_inherited_name_def book_inherited_name_popular_def no_interests_def
          likes_fantasy_def interest_in_def)
qed

text \<open>
  Claim C10. For a book without genres the interest factor is the mean of an empty list,
  which is \<open>NaN\<close>, so \<open>computeMatchScore\<close> returns \<open>NaN\<close> and no number in [0, 1];
  \<open>computeMatchScore\<close> returns a number only when the book has at least one genre.
\<close>

theorem computeMatchScore_empty_genres:
  "(genres book = [] \<longrightarrow>
      lodash_mean (userInterestsInGenres gi book) = NaN \<and>
      computeMatchScore gi book = NaN \<and>
      \<not> (\<exists>s. computeMatchScore gi book = Num s \<and> 0 \<le> s \<and> s \<le> 1)) \<and>
   ((\<exists>s. computeMatchScore gi book = Num s) \<longrightarrow> genres book \<noteq> [])"
  by (auto simp: computeMatchScore_def userInterestsInGenres_def)

theorem computeMatchScore_empty_genres_witness:
  "genres book_no_genres = [] \<and> computeMatchScore likes_fantasy book_no_genres = NaN \<and>
   computeMatchScore likes_fantasy book_two_genres = Num (7 / 10) \<and>
   genres book_two_genres \<noteq> []"
proof -
  have e: "genres book_no_genres = []"
    by (simp add: book_no_genres_def)
  have n: "computeMatchScore likes_fantasy book_two_genres = Num (7 / 10)"
    by (simp add: computeMatchScore_def userInterestsInGenres_def has_property_def
          get_property_def book_two_genres_def likes_fantasy_def Object_prototype_def)
  show ?thesis
    using e n computeMatchScore_empty_genres [of book_no_genres likes_fantasy]
      computeMatchScore_empty_genres [of book_two_genres likes_fantasy]
    by blast
qed

section \<open>The quiz submission route as a chain of checks\<close>

lemma find_passed_filter:
  "(filter P submissions \<noteq> [] \<and> find passed (filter P submissions) \<noteq> None)
     \<longleftrightarrow> (\<exists>s\<in>set submissions. P s \<and> passed s)"
  by (auto simp: find_None_iff filter_empty_conv)

lemma verifyAnswerSchemas_first_failure:
  "verifyAnswerSchemas c pairs = first_failure (map (answer_check c) pairs)"
  by (induction pairs) (auto simp: answer_check_def split: option.splits)

lemma throwing_block:
  "(case (if A then (if B then Some x else None) else None) of
      None \<Rightarrow> R | Some thrown \<Rightarrow> Inl thrown)
   = (if A \<and> B then Inl x else R)"
  by simp

lemma throwing_block2:
  "(case (if A then (if B then Some x else if C then Some y else None) else None) of
      None \<Rightarrow> R | Some thrown \<Rightarrow> Inl thrown)
   = (if A \<and> B then Inl x else if A \<and> C then Inl y else R)"
  by simp

lemma handler_unfolded:
  "submitQuiz_handler c body =
     (case student_check c body of Some e \<Rightarrow> Inl e | None \<Rightarrow>
      case cooldown_check c body of Some e \<Rightarrow> Inl e | None \<Rightarrow>
      case already_passed_check c body of Some e \<Rightarrow> Inl e | None \<Rightarrow>
      case attempts_check c body of Some e \<Rightarrow> Inl e | None \<Rightarrow>
      case book_check c body of Some e \<Rightarrow> Inl e | None \<Rightarrow>
      case getQuizById c (quiz_id body) of
        None \<Rightarrow> Inl (BadRequestError (''No quiz with id '' @ quiz_id body @ '' exists''))
      | Some quiz \<Rightarrow>
        case shape_check c body of Some e \<Rightarrow> Inl e | None \<Rightarrow>
        case answers_check c body of Some e \<Rightarrow> Inl e | None \<Rightarrow>
        Inr (graded_submission c body quiz))"
proof (cases "getUserById c (student_id body)")
  case None
  then show ?thesis
    by (simp add: submitQuiz_handler_def student_check_def)
next
  case (Some user)
  note user = Some
  show ?thesis
  proof (cases "user_type user = STUDENT")
    case False
    then show ?thesis using user
      by (simp add: submitQuiz_handler_def student_check_def)
  next
    case True
    note is_student = True
    let ?subs = "getSubmissionsForStudent c (student_id body)"
    let ?prev = "filter (\<lambda>s. book_id s = book_id body) ?subs"
    let ?till = "date_created (hd (orderBy_desc date_created ?subs))
                   + MinHoursBetweenBookQuizAttempt c * 3600000"
    have till: "?till = mustWaitUntil c ?subs" if "?subs \<noteq> []"
      using that by (simp add: mustWaitUntil_def hd_orderBy_desc_Max)
    have sc: "student_check c body = None"
      using user is_student by (simp add: student_check_def)
    have flat: "submitQuiz_handler c body =
        (if ?subs \<noteq> [] \<and> moment_now c < ?till
         then Inl (ForbiddenError (''User must wait till '' @ toISOString c ?till @
                '' to attempt another quiz.''))
         else if ?prev \<noteq> [] \<and> find passed ?prev \<noteq> None
         then Inl (ForbiddenError (''User has already passed quiz for book '' @ book_id body))
         else if ?prev \<noteq> [] \<and> MaxNumQuizAttempts c \<le> length ?prev
         then Inl (ForbiddenError
                (''User has exhausted all attempts to pass quiz for book '' @ book_id body))
         else
           case getBook c (book_id body) of
             None \<Rightarrow> Inl (BadRequestError (''No book with id '' @ book_id body @ '' exists''))
           | Some book \<Rightarrow>
             case getQuizById c (quiz_id body) of
               None \<Rightarrow>
                 Inl (BadRequestError (''No quiz with id '' @ quiz_id body @ '' exists''))
             | Some quiz \<Rightarrow>
               if length (questions quiz) \<noteq> length (answers body)
               then Inl (BadRequestError
                      (''There are '' @ decimal (length (questions quiz)) @
                       '' quiz questions, '' @ [CHR 0x0A] @ ''            yet '' @
                       decimal (length (answers body)) @ '' answers were submitted''))
               else
                 case verifyAnswerSchemas c (zip (questions quiz) (answers body)) of
                   Some e \<Rightarrow> Inl e
                 | None \<Rightarrow> Inr (graded_submission c body quiz))"
      unfolding submitQuiz_handler_def Let_def throwing_block throwing_block2
        graded_submission_def
      by (simp add: user is_student)
    show ?thesis
    proof (cases "?subs \<noteq> [] \<and> moment_now c < ?till")
      case True
      then have "cooldown_check c body =
          Some (ForbiddenError (''User must wait till '' @ toISOString c ?till @
                '' to attempt another quiz.''))"
        using till by (simp add: cooldown_check_def)
      then show ?thesis using sc True by (simp add: flat)
    next
      case False
      note no_cooldown = False
      then have cc: "cooldown_check c body = None"
        using till by (auto simp: cooldown_check_def Let_def)
      show ?thesis
      proof (cases "?prev \<noteq> [] \<and> find passed ?prev \<noteq> None")
        case True
        then have "already_passed_check c body =
            Some (ForbiddenError (''User has already passed quiz for book '' @ book_id body))"
          unfolding find_passed_filter by (simp add: already_passed_check_def)
        then show ?thesis using sc cc no_cooldown True by (simp add: flat)
      next
        case False
        note not_passed = False
        then have pc: "already_passed_check c body = None"
          unfolding find_passed_filter by (simp add: already_passed_check_def)
        show ?thesis
        proof (cases "?prev \<noteq> [] \<and> MaxNumQuizAttempts c \<le> length ?prev")
          case True
          then have "attempts_check c body =
              Some (ForbiddenError
                (''User has exhausted all attempts to pass quiz for book '' @ book_id body))"
            by (simp add: attempts_check_def Let_def)
          then show ?thesis using sc cc pc no_cooldown not_passed True by (simp add: flat)
        next
          case False
          note attempts_left = False
          then have ac: "attempts_check c body = None"
            by (simp add: attempts_check_def Let_def)
          have nc: "(?subs \<noteq> [] \<and> moment_now c < ?till) = False"
            using no_cooldown by blast
          have np: "(?prev \<noteq> [] \<and> find passed ?prev \<noteq> None) = False"
            using not_passed by blast
          have na: "(?prev \<noteq> [] \<and> MaxNumQuizAttempts c \<le> length ?prev) = False"
            using attempts_left by blast
          show ?thesis
            unfolding flat nc np na verifyAnswerSchemas_first_failure
            by (simp add: sc cc pc ac book_check_def shape_check_def answers_check_def
                  split: option.splits)
        qed
      qed
    qed
  qed
qed

lemma submitQuiz_unfolded:
  "submitQuiz c authToken body =
     (case identity_check authToken body of Some e \<Rightarrow> Inl e | None \<Rightarrow>
      submitQuiz_handler c body)"
  by (simp add: submitQuiz_def identity_check_def)

lemma first_failure_Cons:
  "first_failure (x # checks) = (case x of None \<Rightarrow> first_failure checks | Some e \<Rightarrow> Some e)"
  by (cases x) simp_all

lemma submitQuiz_rejects:
  assumes "first_failure (checks_in_order c authToken body) = Some e"
  shows "submitQuiz c authToken body = Inl e"
  using assms
  unfolding submitQuiz_unfolded handler_unfolded checks_in_order_def first_failure_Cons
  by (simp add: quiz_check_def split: option.splits)

lemma submitQuiz_accepts:
  assumes "first_failure (checks_in_order c authToken body) = None"
  shows "\<exists>quiz. getQuizById c (quiz_id body) = Some quiz \<and>
           submitQuiz c authToken body = Inr (graded_submission c body quiz)"
  using assms
  unfolding submitQuiz_unfolded handler_unfolded checks_in_order_def first_failure_Cons
  by (simp add: quiz_check_def split: option.splits)

lemma first_failure_Some:
  "first_failure checks = Some e \<Longrightarrow> Some e \<in> set checks"
  by (induction checks rule: first_failure.induct) auto

lemma reason_identity: "identity_check authToken body = Some e \<Longrightarrow> reason_index e = 0"
  by (auto simp: identity_check_def reason_index_def split: if_splits)

lemma reason_student: "student_check c body = Some e \<Longrightarrow> reason_index e = 1"
  by (auto simp: student_check_def reason_index_def split: if_splits option.splits)

lemma reason_cooldown: "cooldown_check c body = Some e \<Longrightarrow> reason_index e = 2"
  by (auto simp: cooldown_check_def reason_index_def Let_def split: if_splits)

lemma reason_passed: "already_passed_check c body = Some e \<Longrightarrow> reason_index e = 3"
  by (auto simp: already_passed_check_def reason_index_def split: if_splits)

lemma reason_attempts: "attempts_check c body = Some e \<Longrightarrow> reason_index e = 4"
  by (auto simp: attempts_check_def reason_index_def Let_def split: if_splits)

lemma reason_book: "book_check c body = Some e \<Longrightarrow> reason_index e = 5"
  by (auto simp: book_check_def reason_index_def split: option.splits)

lemma reason_quiz: "quiz_check c body = Some e \<Longrightarrow> reason_index e = 6"
  by (auto simp: quiz_check_def reason_index_def split: option.splits)

lemma reason_shape: "shape_check c body = Some e \<Longrightarrow> reason_index e = 7"
  by (auto simp: shape_check_def reason_index_def split: option.splits if_splits)

lemma reason_answer: "answer_check c qa = Some e \<Longrightarrow> reason_index e = 8"
  by (auto simp: answer_check_def reason_index_def split: option.splits)

lemma reason_answers:
  assumes "answers_check c body = Some e"
  shows "reason_index e = 8"
proof (cases "getQuizById c (quiz_id body)")
  case None
  then show ?thesis using assms by (simp add: answers_check_def)
next
  case (Some quiz)
  then have "first_failure (map (answer_check c) (zip (questions quiz) (answers body))) = Some e"
    using assms by (simp add: answers_check_def)
  then have "Some e \<in> set (map (answer_check c) (zip (questions quiz) (answers body)))"
    by (rule first_failure_Some)
  then obtain qa where "answer_check c qa = Some e" by auto
  then show ?thesis by (rule reason_answer)
qed

lemma check_positions:
  assumes "i < length (checks_in_order c authToken body)"
  shows "i = 8 \<or> i = 7 \<or> i = 6 \<or> i = 5 \<or> i = 4 \<or> i = 3 \<or> i = 2 \<or> i = 1 \<or> i = 0"
  using assms unfolding checks_in_order_def by (simp add: less_Suc_eq numeral_nat) blast

lemma reason_index_of_check:
  assumes "i < length (checks_in_order c authToken body)"
    and nth: "checks_in_order c authToken body ! i = Some e"
  shows "reason_index e = i"
  using check_positions [OF assms(1)]
proof (elim disjE)
  assume "i = 8"
  then show ?thesis
    using nth reason_answers [of c body e] by (simp add: checks_in_order_def)
next
  assume "i = 7"
  then show ?thesis
    using nth reason_shape [of c body e] by (simp add: checks_in_order_def)
next
  assume "i = 6"
  then show ?thesis
    using nth reason_quiz [of c body e] by (simp add: checks_in_order_def)
next
  assume "i = 5"
  then show ?thesis
    using nth reason_book [of c body e] by (simp add: checks_in_order_def)
next
  assume "i = 4"
  then show ?thesis
    using nth reason_attempts [of c body e] by (simp add: checks_in_order_def)
next
  assume "i = 3"
  then show ?thesis
    using nth reason_passed [of c body e] by (simp add: checks_in_order_def)
next
  assume "i = 2"
  then show ?thesis
    using nth reason_cooldown [of c body e] by (simp add: checks_in_order_def)
next
  assume "i = 1"
  then show ?thesis
    using nth reason_student [of c body e] by (simp add: checks_in_order_def)
next
  assume "i = 0"
  then show ?thesis
    using nth reason_identity [of authToken body e] by (simp add: checks_in_order_def)
qed

lemma reaches_cooldown:
  assumes "\<not> (token_type authToken = STUDENT \<and> token_oid authToken \<noteq> student_id body)"
    and "getUserById c (student_id body) = Some user" and "user_type user = STUDENT"
  shows "identity_check authToken body = None" and "student_check c body = None"
  using assms by (auto simp: identity_check_def student_check_def)

lemma cooldown_active:
  assumes "identity_check authToken body = None" and "student_check c body = None"
    and "cooldown_check c body = Some e"
  shows "submitQuiz c authToken body = Inl e"
proof -
  have "first_failure (checks_in_order c authToken body) = Some e"
    using assms by (simp add: checks_in_order_def)
  then show ?thesis by (rule submitQuiz_rejects)
qed

lemma reason_cooldown_message:
  "reason_index (ForbiddenError (''User must wait till '' @ m)) = 2"
  by (simp add: reason_index_def)

lemma rejection_is_a_check:
  assumes "submitQuiz c authToken body = Inl e"
  shows "\<exists>i < length (checks_in_order c authToken body). checks_in_order c authToken body ! i = Some e"
proof (cases "first_failure (checks_in_order c authToken body)")
  case None
  then show ?thesis using submitQuiz_accepts [of c authToken body] assms by auto
next
  case (Some e')
  then have "submitQuiz c authToken body = Inl e'" by (rule submitQuiz_rejects)
  then have "e' = e" using assms by simp
  then have "Some e \<in> set (checks_in_order c authToken body)"
    using Some first_failure_Some by blast
  then show ?thesis by (simp add: in_set_conv_nth)
qed

lemma cooldown_over:
  assumes "cooldown_check c body = None"
  shows "submitQuiz c authToken body \<noteq> Inl (ForbiddenError (''User must wait till '' @ m))"
proof
  assume "submitQuiz c authToken body = Inl (ForbiddenError (''User must wait till '' @ m))"
  then obtain i where i: "i < length (checks_in_order c authToken body)"
    "checks_in_order c authToken body ! i = Some (ForbiddenError (''User must wait till '' @ m))"
    using rejection_is_a_check by blast
  then have "reason_index (ForbiddenError (''User must wait till '' @ m)) = i"
    by (rule reason_index_of_check)
  then have "i = 2" using reason_cooldown_message [of m] by simp
  then show False using i(2) assms by (simp add: checks_in_order_def)
qed

lemma all_checks_pass:
  "first_failure (checks_in_order c authToken body) = None \<longleftrightarrow>
     identity_check authToken body = None \<and> student_check c body = None \<and>
     cooldown_check c body = None \<and> already_passed_check c body = None \<and>
     attempts_check c body = None \<and> book_check c body = None \<and>
     quiz_check c body = None \<and> shape_check c body = None \<and>
     answers_check c body = None"
  unfolding checks_in_order_def first_failure_Cons
  by (simp split: option.splits)

lemma answer_check_ignores_grader:
  "answer_check (c\<lparr>gradeQuiz := g\<rparr>) = answer_check c"
  by (simp add: fun_eq_iff answer_check_def)

lemma cooldown_check_ignores_grader:
  "cooldown_check (c\<lparr>gradeQuiz := g\<rparr>) body = cooldown_check c body"
  by (simp add: cooldown_check_def mustWaitUntil_def Let_def cong: if_cong)

lemma answers_check_ignores_grader:
  "answers_check (c\<lparr>gradeQuiz := g\<rparr>) body = answers_check c body"
  by (simp add: answers_check_def answer_check_ignores_grader split: option.splits)

lemma checks_ignore_grader:
  "checks_in_order (c\<lparr>gradeQuiz := g\<rparr>) authToken body = checks_in_order c authToken body"
  by (simp add: checks_in_order_def student_check_def cooldown_check_ignores_grader
        already_passed_check_def attempts_check_def book_check_def quiz_check_def
        shape_check_def answers_check_ignores_grader)

lemma submitQuiz_Inr_iff:
  "submitQuiz c authToken body = Inr s \<longleftrightarrow>
     first_failure (checks_in_order c authToken body) = None \<and>
     (\<exists>quiz. getQuizById c (quiz_id body) = Some quiz \<and> s = graded_submission c body quiz)"
proof (cases "first_failure (checks_in_order c authToken body)")
  case None
  then show ?thesis using submitQuiz_accepts [OF None] by auto
next
  case (Some e)
  then show ?thesis using submitQuiz_rejects [OF Some] by simp
qed

section \<open>Order of the eligibility checks\<close>

text \<open>
  A request for a book that does not exist, made one hour after the student's last
  submission: in the order the specification lists the checks the first failure is the
  missing book, while \<open>submitQuiz\<close> rejects with the cooldown reason.
\<close>

theorem dangling_book_counterexample:
  "getBook hour_1_after_failing (book_id (request ''ghost'' [''yes'', ''yes''])) = None \<and>
   first_failure (checks_in_spec_order hour_1_after_failing student_token
                    (request ''ghost'' [''yes'', ''yes'']))
     = Some (BadRequestError ''No book with id ghost exists'') \<and>
   submitQuiz hour_1_after_failing student_token (request ''ghost'' [''yes'', ''yes''])
     = Inl (ForbiddenError
              ''User must wait till 1970-01-02T00:00:00.000Z to attempt another quiz.'')"
  by code_simp

text \<open>
  Claim C1, as amended. \<open>submitQuiz\<close> evaluates the checks in the order identity,
  existence and role of the student, cooldown, already-passed, attempt-exhaustion,
  existence of the book, existence of the quiz, answer count, per-answer schema. It
  rejects with the reason of the first check that fails; when none fails it returns the
  graded submission. Two different checks never give the same reason. In particular, a
  dangling book or quiz reference is reported once the cooldown, already-passed and
  attempt-exhaustion checks have passed.
\<close>

theorem submitQuiz_check_order:
  "(first_failure (checks_in_order c authToken body) = Some e \<longrightarrow>
      submitQuiz c authToken body = Inl e) \<and>
   (first_failure (checks_in_order c authToken body) = None \<longrightarrow>
      (\<exists>quiz. getQuizById c (quiz_id body) = Some quiz \<and>
              submitQuiz c authToken body = Inr (graded_submission c body quiz))) \<and>
   (\<forall>i j e1 e2.
      i < length (checks_in_order c authToken body) \<and>
      j < length (checks_in_order c authToken body) \<and>
      checks_in_order c authToken body ! i = Some e1 \<and>
      checks_in_order c authToken body ! j = Some e2 \<and> i \<noteq> j \<longrightarrow> e1 \<noteq> e2) \<and>
   (identity_check authToken body = None \<and> student_check c body = None \<and>
    cooldown_check c body = None \<and> already_passed_check c body = None \<and>
    attempts_check c body = None \<and>
    (getBook c (book_id body) = None \<or> getQuizById c (quiz_id body) = None) \<longrightarrow>
      submitQuiz c authToken body =
        Inl (BadRequestError
              (if getBook c (book_id body) = None
               then ''No book with id '' @ book_id body @ '' exists''
               else ''No quiz with id '' @ quiz_id body @ '' exists'')))"
proof (intro conjI impI allI)
  assume "first_failure (checks_in_order c authToken body) = Some e"
  then show "submitQuiz c authToken body = Inl e" by (rule submitQuiz_rejects)
next
  assume "first_failure (checks_in_order c authToken body) = None"
  then show "\<exists>quiz. getQuizById c (quiz_id body) = Some quiz \<and>
              submitQuiz c authToken body = Inr (graded_submission c body quiz)"
    by (rule submitQuiz_accepts)
next
  fix i j e1 e2
  assume h: "i < length (checks_in_order c authToken body) \<and>
      j < length (checks_in_order c authToken body) \<and>
      checks_in_order c authToken body ! i = Some e1 \<and>
      checks_in_order c authToken body ! j = Some e2 \<and> i \<noteq> j"
  then have "reason_index e1 = i" and "reason_index e2 = j"
    using reason_index_of_check by blast+
  then show "e1 \<noteq> e2" using h by auto
next
  assume h: "identity_check authToken body = None \<and> student_check c body = None \<and>
    cooldown_check c body = None \<and> already_passed_check c body = None \<and>
    attempts_check c body = None \<and>
    (getBook c (book_id body) = None \<or> getQuizById c (quiz_id body) = None)"
  show "submitQuiz c authToken body =
        Inl (BadRequestError
              (if getBook c (book_id body) = None
               then ''No book with id '' @ book_id body @ '' exists''
               else ''No quiz with id '' @ quiz_id body @ '' exists''))"
  proof (cases "getBook c (book_id body)")
    case None
    then have "first_failure (checks_in_order c authToken body) =
        Some (BadRequestError (''No book with id '' @ book_id body @ '' exists''))"
      using h by (simp add: checks_in_order_def book_check_def)
    then show ?thesis using None submitQuiz_rejects by fastforce
  next
    case (Some book)
    then have "getQuizById c (quiz_id body) = None" using h by simp
    then have "first_failure (checks_in_order c authToken body) =
        Some (BadRequestError (''No quiz with id '' @ quiz_id body @ '' exists''))"
      using h Some by (simp add: checks_in_order_def book_check_def quiz_check_def)
    then show ?thesis using Some submitQuiz_rejects by fastforce
  qed
qed

theorem submitQuiz_check_order_witness:
  "first_failure (checks_in_order hour_1_after_failing student_token
                    (request ''ghost'' [''yes'', ''yes'']))
     = Some (ForbiddenError
              ''User must wait till 1970-01-02T00:00:00.000Z to attempt another quiz.'') \<and>
   submitQuiz hour_1_after_failing student_token (request ''ghost'' [''yes'', ''yes''])
     = Inl (ForbiddenError
              ''User must wait till 1970-01-02T00:00:00.000Z to attempt another quiz.'') \<and>
   first_failure (checks_in_order hour_25_after_passing student_token
                    (request ''ghost'' [''yes'', ''yes'']))
     = Some (BadRequestError ''No book with id ghost exists'') \<and>
   submitQuiz hour_25_after_passing student_token (request ''ghost'' [''yes'', ''yes''])
     = Inl (BadRequestError ''No book with id ghost exists'') \<and>
   first_failure (checks_in_order hour_25_after_passing student_token
                    (request ''book-B'' [''yes'', ''no''])) = None \<and>
   submitQuiz hour_25_after_passing student_token (request ''book-B'' [''yes'', ''no''])
     = Inr (graded_submission hour_25_after_passing (request ''book-B'' [''yes'', ''no''])
              the_quiz)"
proof -
  have a: "first_failure (checks_in_order hour_1_after_failing student_token
                    (request ''ghost'' [''yes'', ''yes'']))
     = Some (ForbiddenError
              ''User must wait till 1970-01-02T00:00:00.000Z to attempt another quiz.'')"
    by code_simp
  have b: "first_failure (checks_in_order hour_25_after_passing student_token
                    (request ''ghost'' [''yes'', ''yes'']))
     = Some (BadRequestError ''No book with id ghost exists'')"
    by code_simp
  have c: "first_failure (checks_in_order hour_25_after_passing student_token
                    (request ''book-B'' [''yes'', ''no''])) = None"
    by code_simp
  have q: "getQuizById hour_25_after_passing (quiz_id (request ''book-B'' [''yes'', ''no'']))
      = Some the_quiz"
    by (simp add: hour_25_after_passing_def platform_def request_def)
  show ?thesis
    using a b c q
      submitQuiz_check_order [of hour_1_after_failing student_token
        "request ''ghost'' [''yes'', ''yes'']"
        "ForbiddenError ''User must wait till 1970-01-02T00:00:00.000Z to attempt another quiz.''"]
      submitQuiz_check_order [of hour_25_after_passing student_token
        "request ''ghost'' [''yes'', ''yes'']" "BadRequestError ''No book with id ghost exists''"]
      submitQuiz_check_order [of hour_25_after_passing student_token
        "request ''book-B'' [''yes'', ''no'']" "BadRequestError []"]
    by auto
qed

section \<open>Already-passed books\<close>

text \<open>
  One hour after a passed submission for book A, a new attempt for book A is rejected
  with the cooldown reason, not with the already-passed reason.
\<close>

theorem already_passed_counterexample:
  "getSubmissionsForStudent hour_1_after_passing ''stu-1''
     = [stored_submission ''sub-1'' ''book-A'' 0 True] \<and>
   passed (stored_submission ''sub-1'' ''book-A'' 0 True) \<and>
   book_id (stored_submission ''sub-1'' ''book-A'' 0 True)
     = book_id (request ''book-A'' [''yes'', ''yes'']) \<and>
   submitQuiz hour_1_after_passing student_token (request ''book-A'' [''yes'', ''yes''])
     = Inl (ForbiddenError
              ''User must wait till 1970-01-02T00:00:00.000Z to attempt another quiz.'') \<and>
   submitQuiz hour_1_after_passing student_token (request ''book-A'' [''yes'', ''yes''])
     \<noteq> Inl (ForbiddenError ''User has already passed quiz for book book-A'')"
  by code_simp

text \<open>
  Claim C2, as amended. For an existing student with a prior passed submission for book
  B, and a principal that is that student or not a student, a new attempt for B made
  when the current time is not before \<open>mustWaitUntil\<close> is rejected with the
  already-passed reason, whatever the number of attempts; while the current time is
  before \<open>mustWaitUntil\<close> it is rejected with the cooldown reason.
\<close>

theorem already_passed_rejected:
  assumes "\<not> (token_type authToken = STUDENT \<and> token_oid authToken \<noteq> student_id body)"
    and "getUserById c (student_id body) = Some user" and "user_type user = STUDENT"
    and "getSubmissionsForStudent c (student_id body) = submissions"
    and "s \<in> set submissions" and "book_id s = book_id body" and "passed s"
  shows "(\<not> moment_now c < mustWaitUntil c submissions \<longrightarrow>
            submitQuiz c authToken body =
              Inl (ForbiddenError (''User has already passed quiz for book '' @ book_id body))) \<and>
         (moment_now c < mustWaitUntil c submissions \<longrightarrow>
            submitQuiz c authToken body =
              Inl (ForbiddenError
                    (''User must wait till '' @ toISOString c (mustWaitUntil c submissions) @
                     '' to attempt another quiz.'')))"
proof (intro conjI impI)
  note first = reaches_cooldown [OF assms(1-3)]
  have ne: "submissions \<noteq> []" using assms(5) by auto
  {
    assume "\<not> moment_now c < mustWaitUntil c submissions"
    then have "cooldown_check c body = None"
      using assms(4) by (simp add: cooldown_check_def)
    moreover have "already_passed_check c body =
        Some (ForbiddenError (''User has already passed quiz for book '' @ book_id body))"
      using assms(4-7) by (auto simp: already_passed_check_def)
    ultimately have "first_failure (checks_in_order c authToken body) =
        Some (ForbiddenError (''User has already passed quiz for book '' @ book_id body))"
      using first by (simp add: checks_in_order_def)
    then show "submitQuiz c authToken body =
        Inl (ForbiddenError (''User has already passed quiz for book '' @ book_id body))"
      by (rule submitQuiz_rejects)
  }
  {
    assume "moment_now c < mustWaitUntil c submissions"
    then have "cooldown_check c body =
        Some (ForbiddenError
               (''User must wait till '' @ toISOString c (mustWaitUntil c submissions) @
                '' to attempt another quiz.''))"
      using assms(4) ne by (simp add: cooldown_check_def)
    then show "submitQuiz c authToken body =
        Inl (ForbiddenError
               (''User must wait till '' @ toISOString c (mustWaitUntil c submissions) @
                '' to attempt another quiz.''))"
      using first by (intro cooldown_active)
  }
qed

theorem already_passed_rejected_witness:
  "\<not> moment_now hour_25_after_passing
       < mustWaitUntil hour_25_after_passing [stored_submission ''sub-1'' ''book-A'' 0 True] \<and>
   submitQuiz hour_25_after_passing student_token (request ''book-A'' [''yes'', ''yes''])
     = Inl (ForbiddenError ''User has already passed quiz for book book-A'') \<and>
   moment_now hour_23_after_passing
       < mustWaitUntil hour_23_after_passing [stored_submission ''sub-1'' ''book-A'' 0 True] \<and>
   submitQuiz hour_23_after_passing student_token (request ''book-A'' [''yes'', ''yes''])
     = Inl (ForbiddenError
              ''User must wait till 1970-01-02T00:00:00.000Z to attempt another quiz.'')"
proof -
  let ?body = "request ''book-A'' [''yes'', ''yes'']"
  let ?s = "stored_submission ''sub-1'' ''book-A'' 0 True"
  let ?user = "\<lparr>user_oid = ''stu-1'', user_type = STUDENT\<rparr>"
  have tok: "\<not> (token_type student_token = STUDENT \<and> token_oid student_token \<noteq> student_id ?body)"
    by (simp add: student_token_def request_def)
  have u23: "getUserById hour_23_after_passing (student_id ?body) = Some ?user"
    and u25: "getUserById hour_25_after_passing (student_id ?body) = Some ?user"
    by (simp_all add: hour_23_after_passing_def hour_25_after_passing_def platform_def request_def)
  have st: "user_type ?user = STUDENT" by simp
  have s23: "getSubmissionsForStudent hour_23_after_passing (student_id ?body) = [?s]"
    and s25: "getSubmissionsForStudent hour_25_after_passing (student_id ?body) = [?s]"
    by (simp_all add: hour_23_after_passing_def hour_25_after_passing_def platform_def
          request_def stored_submission_def)
  have mem: "?s \<in> set [?s]" by simp
  have bk: "book_id ?s = book_id ?body" by (simp add: stored_submission_def request_def)
  have ps: "passed ?s" by (simp add: stored_submission_def)
  have w23: "mustWaitUntil hour_23_after_passing [?s] = 86400000"
    and w25: "mustWaitUntil hour_25_after_passing [?s] = 86400000"
    by (simp_all add: mustWaitUntil_def hour_23_after_passing_def hour_25_after_passing_def
          platform_def stored_submission_def)
  have before: "moment_now hour_23_after_passing < mustWaitUntil hour_23_after_passing [?s]"
    unfolding w23 by (simp add: hour_23_after_passing_def platform_def)
  have after: "\<not> moment_now hour_25_after_passing < mustWaitUntil hour_25_after_passing [?s]"
    unfolding w25 by (simp add: hour_25_after_passing_def platform_def)
  have iso: "toISOString hour_23_after_passing 86400000 = ''1970-01-02T00:00:00.000Z''"
    by code_simp
  have bid: "book_id ?body = ''book-A''" by (simp add: request_def)
  from already_passed_rejected [OF tok u25 st s25 mem bk ps] after bid
  have r25: "submitQuiz hour_25_after_passing student_token ?body
     = Inl (ForbiddenError ''User has already passed quiz for book book-A'')"
    by simp
  from already_passed_rejected [OF tok u23 st s23 mem bk ps] before w23 iso
  have r23: "submitQuiz hour_23_after_passing student_token ?body
     = Inl (ForbiddenError
              ''User must wait till 1970-01-02T00:00:00.000Z to attempt another quiz.'')"
    by simp
  show ?thesis using before after r23 r25 by blast
qed

section \<open>Who may set the comprehension rating\<close>

text \<open>
  An administrator, whose identity differs from the submission's \<open>student_id\<close>, sets
  the comprehension rating of a student's submission.
\<close>

theorem comprehension_by_admin_counterexample:
  "getSubmissionById hour_25_after_passing ''sub-1''
     = Some (stored_submission ''sub-1'' ''book-A'' 0 True) \<and>
   token_oid admin_token \<noteq> student_id (stored_submission ''sub-1'' ''book-A'' 0 True) \<and>
   setComprehensionForSubmission hour_25_after_passing admin_token ''sub-1'' 4
     = Inr ((stored_submission ''sub-1'' ''book-A'' 0 True)
              \<lparr>submission_comprehension := Some 4\<rparr>)"
  by code_simp

text \<open>
  Claim C3, as amended. For an existing submission, \<open>setComprehensionForSubmission\<close>
  rejects the update for every principal of role student whose identity differs from
  the submission's \<open>student_id\<close>; for the submitting student and for every principal
  that is not a student it writes the rating.
\<close>

theorem comprehension_identity_guard:
  assumes "getSubmissionById c submissionId = Some submission"
  shows "(token_type authToken = STUDENT \<and> token_oid authToken \<noteq> student_id submission \<longrightarrow>
            setComprehensionForSubmission c authToken submissionId n =
              Inl (BadRequestError
                ''Students cannot update comprehension for submissions by other students'')) \<and>
         (token_type authToken \<noteq> STUDENT \<or> token_oid authToken = student_id submission \<longrightarrow>
            setComprehensionForSubmission c authToken submissionId n =
              Inr (submission\<lparr>submission_comprehension := Some n\<rparr>))"
  using assms by (auto simp: setComprehensionForSubmission_def)

theorem comprehension_identity_guard_witness:
  "token_type other_student_token = STUDENT \<and>
   token_oid other_student_token \<noteq> student_id (stored_submission ''sub-1'' ''book-A'' 0 True) \<and>
   setComprehensionForSubmission hour_25_after_passing other_student_token ''sub-1'' 4
     = Inl (BadRequestError
        ''Students cannot update comprehension for submissions by other students'') \<and>
   token_oid student_token = student_id (stored_submission ''sub-1'' ''book-A'' 0 True) \<and>
   setComprehensionForSubmission hour_25_after_passing student_token ''sub-1'' 4
     = Inr ((stored_submission ''sub-1'' ''book-A'' 0 True)
              \<lparr>submission_comprehension := Some 4\<rparr>)"
proof -
  let ?s = "stored_submission ''sub-1'' ''book-A'' 0 True"
  have found: "getSubmissionById hour_25_after_passing ''sub-1'' = Some ?s"
    by (simp add: hour_25_after_passing_def platform_def stored_submission_def)
  have other: "token_type other_student_token = STUDENT \<and>
      token_oid other_student_token \<noteq> student_id ?s"
    by (simp add: other_student_token_def stored_submission_def)
  have own: "token_oid student_token = student_id ?s"
    by (simp add: student_token_def stored_submission_def)
  show ?thesis
    using other own
      comprehension_identity_guard [OF found, of other_student_token 4]
      comprehension_identity_guard [OF found, of student_token 4]
    by blast
qed

section \<open>The cooldown window\<close>

text \<open>
  Claim C4. The cooldown check looks at all submissions of the student, whatever their
  book. For a request that reaches it (the identity check passes and the student exists
  with the student role) and a student with at least one prior submission, let
  \<open>until\<close> be the largest \<open>date_created\<close> among them plus
  \<open>MinHoursBetweenBookQuizAttempt\<close> hours. At a current time strictly before \<open>until\<close>
  the attempt, for any book, is rejected with \<open>until\<close> rendered in the message; at a
  current time not before \<open>until\<close> the cooldown check passes and the attempt is never
  rejected with the cooldown reason.
\<close>

theorem cooldown_platform_wide:
  assumes "\<not> (token_type authToken = STUDENT \<and> token_oid authToken \<noteq> student_id body)"
    and "getUserById c (student_id body) = Some user" and "user_type user = STUDENT"
    and "getSubmissionsForStudent c (student_id body) = submissions" and "submissions \<noteq> []"
    and "until = Max (set (map date_created submissions))
                   + MinHoursBetweenBookQuizAttempt c * 3600000"
  shows "(moment_now c < until \<longrightarrow>
            submitQuiz c authToken body =
              Inl (ForbiddenError
                    (''User must wait till '' @ toISOString c until @
                     '' to attempt another quiz.''))) \<and>
         (\<not> moment_now c < until \<longrightarrow>
            cooldown_check c body = None \<and>
            (\<forall>m. submitQuiz c authToken body \<noteq>
                   Inl (ForbiddenError (''User must wait till '' @ m))))"
proof (intro conjI impI)
  have u: "until = mustWaitUntil c submissions"
    using assms(6) by (simp add: mustWaitUntil_def)
  note first = reaches_cooldown [OF assms(1-3)]
  {
    assume "moment_now c < until"
    then have "cooldown_check c body =
        Some (ForbiddenError (''User must wait till '' @ toISOString c until @
                '' to attempt another quiz.''))"
      using assms(4,5) u by (simp add: cooldown_check_def)
    then show "submitQuiz c authToken body =
        Inl (ForbiddenError (''User must wait till '' @ toISOString c until @
               '' to attempt another quiz.''))"
      using first by (intro cooldown_active)
  }
  {
    assume "\<not> moment_now c < until"
    then show none: "cooldown_check c body = None"
      using assms(4) u by (simp add: cooldown_check_def)
    then show "\<forall>m. submitQuiz c authToken body \<noteq>
                 Inl (ForbiddenError (''User must wait till '' @ m))"
      using cooldown_over by blast
  }
qed

theorem cooldown_platform_wide_witness:
  "submitQuiz hour_23_after_passing student_token (request ''book-B'' [''yes'', ''yes''])
     = Inl (ForbiddenError
              ''User must wait till 1970-01-02T00:00:00.000Z to attempt another quiz.'') \<and>
   submitQuiz hour_25_after_passing student_token (request ''book-B'' [''yes'', ''yes''])
     \<noteq> Inl (ForbiddenError
              ''User must wait till 1970-01-02T00:00:00.000Z to attempt another quiz.'') \<and>
   submitQuiz hour_25_after_passing student_token (request ''book-B'' [''yes'', ''yes''])
     = Inr (graded_submission hour_25_after_passing (request ''book-B'' [''yes'', ''yes''])
              the_quiz)"
proof -
  let ?body = "request ''book-B'' [''yes'', ''yes'']"
  let ?stored = "[stored_submission ''sub-1'' ''book-A'' 0 True]"
  let ?user = "\<lparr>user_oid = ''stu-1'', user_type = STUDENT\<rparr>"
  have tok: "\<not> (token_type student_token = STUDENT \<and> token_oid student_token \<noteq> student_id ?body)"
    by (simp add: student_token_def request_def)
  have u23: "getUserById hour_23_after_passing (student_id ?body) = Some ?user"
    and u25: "getUserById hour_25_after_passing (student_id ?body) = Some ?user"
    by (simp_all add: hour_23_after_passing_def hour_25_after_passing_def platform_def request_def)
  have st: "user_type ?user = STUDENT" by simp
  have s23: "getSubmissionsForStudent hour_23_after_passing (student_id ?body) = ?stored"
    and s25: "getSubmissionsForStudent hour_25_after_passing (student_id ?body) = ?stored"
    by (simp_all add: hour_23_after_passing_def hour_25_after_passing_def platform_def
          request_def stored_submission_def)
  have ne: "?stored \<noteq> []" by simp
  have t23: "(86400000::int) = Max (set (map date_created ?stored))
                   + MinHoursBetweenBookQuizAttempt hour_23_after_passing * 3600000"
    and t25: "(86400000::int) = Max (set (map date_created ?stored))
                   + MinHoursBetweenBookQuizAttempt hour_25_after_passing * 3600000"
    by (simp_all add: hour_23_after_passing_def hour_25_after_passing_def platform_def
          stored_submission_def)
  have before: "moment_now hour_23_after_passing < 86400000"
    and after: "\<not> moment_now hour_25_after_passing < 86400000"
    by (simp_all add: hour_23_after_passing_def hour_25_after_passing_def platform_def)
  have iso: "toISOString hour_23_after_passing 86400000 = ''1970-01-02T00:00:00.000Z''"
    by code_simp
  have accepted:
    "submitQuiz hour_25_after_passing student_token ?body
       = Inr (graded_submission hour_25_after_passing ?body the_quiz)"
    by code_simp
  from cooldown_platform_wide [OF tok u23 st s23 ne t23] before iso
  have r23: "submitQuiz hour_23_after_passing student_token ?body
     = Inl (ForbiddenError
              ''User must wait till 1970-01-02T00:00:00.000Z to attempt another quiz.'')"
    by simp
  from cooldown_platform_wide [OF tok u25 st s25 ne t25] after
  have "\<forall>m. submitQuiz hour_25_after_passing student_token ?body
           \<noteq> Inl (ForbiddenError (''User must wait till '' @ m))"
    by blast
  then have r25: "submitQuiz hour_25_after_passing student_token ?body
     \<noteq> Inl (ForbiddenError
              (''User must wait till '' @ ''1970-01-02T00:00:00.000Z to attempt another quiz.''))"
    by blast
  show ?thesis using r23 r25 accepted by simp
qed

section \<open>The graded submission\<close>

text \<open>
  Claim C7. \<open>submitQuiz\<close> returns a submission exactly when all nine checks pass, and
  then it is the submission built from the request with \<open>date_created\<close> the current
  time, \<open>score\<close> the grader's output on the quiz and the submitted answers, and
  \<open>passed\<close> the comparison of that score with \<open>PassingQuizGrade\<close>. The grader takes
  no part in a rejection: a rejected request is rejected with the same reason whatever
  the grader is, and a request whose answer count differs from the question count is
  rejected.
\<close>

theorem graded_after_all_checks:
  "(submitQuiz c authToken body = Inr s \<longleftrightarrow>
      (identity_check authToken body = None \<and> student_check c body = None \<and>
       cooldown_check c body = None \<and> already_passed_check c body = None \<and>
       attempts_check c body = None \<and> book_check c body = None \<and>
       quiz_check c body = None \<and> shape_check c body = None \<and>
       answers_check c body = None) \<and>
      (\<exists>quiz. getQuizById c (quiz_id body) = Some quiz \<and>
              s = graded_submission c body quiz)) \<and>
   (submitQuiz c authToken body = Inr s \<longrightarrow>
      date_created s = new_Date c \<and>
      (\<exists>quiz. getQuizById c (quiz_id body) = Some quiz \<and>
              length (questions quiz) = length (answers body) \<and>
              score s = gradeQuiz c quiz (answers body)) \<and>
      passed s = (PassingQuizGrade c \<le> score s)) \<and>
   (submitQuiz c authToken body = Inl e \<longrightarrow>
      submitQuiz (c\<lparr>gradeQuiz := g\<rparr>) authToken body = Inl e) \<and>
   (getQuizById c (quiz_id body) = Some quiz' \<and>
    length (questions quiz') \<noteq> length (answers body) \<longrightarrow>
      (\<exists>e'. submitQuiz c authToken body = Inl e'))"
proof (intro conjI impI)
  show "submitQuiz c authToken body = Inr s \<longleftrightarrow>
      (identity_check authToken body = None \<and> student_check c body = None \<and>
       cooldown_check c body = None \<and> already_passed_check c body = None \<and>
       attempts_check c body = None \<and> book_check c body = None \<and>
       quiz_check c body = None \<and> shape_check c body = None \<and>
       answers_check c body = None) \<and>
      (\<exists>quiz. getQuizById c (quiz_id body) = Some quiz \<and>
              s = graded_submission c body quiz)"
    unfolding submitQuiz_Inr_iff all_checks_pass ..
next
  assume r: "submitQuiz c authToken body = Inr s"
  then obtain quiz where q: "getQuizById c (quiz_id body) = Some quiz"
    and s: "s = graded_submission c body quiz"
    and ok: "first_failure (checks_in_order c authToken body) = None"
    unfolding submitQuiz_Inr_iff by blast
  show "date_created s = new_Date c"
    by (simp add: s graded_submission_def)
  have "shape_check c body = None" using ok unfolding all_checks_pass by blast
  then have "length (questions quiz) = length (answers body)"
    using q by (simp add: shape_check_def split: if_splits)
  then show "\<exists>quiz. getQuizById c (quiz_id body) = Some quiz \<and>
              length (questions quiz) = length (answers body) \<and>
              score s = gradeQuiz c quiz (answers body)"
    using q by (simp add: s graded_submission_def)
  show "passed s = (PassingQuizGrade c \<le> score s)"
    by (simp add: s graded_submission_def)
next
  assume l: "submitQuiz c authToken body = Inl e"
  have "first_failure (checks_in_order c authToken body) = Some e"
  proof (cases "first_failure (checks_in_order c authToken body)")
    case None
    then show ?thesis using submitQuiz_accepts [OF None] l by auto
  next
    case (Some e')
    then show ?thesis using submitQuiz_rejects [OF Some] l by simp
  qed
  then have "first_failure (checks_in_order (c\<lparr>gradeQuiz := g\<rparr>) authToken body) = Some e"
    by (simp add: checks_ignore_grader)
  then show "submitQuiz (c\<lparr>gradeQuiz := g\<rparr>) authToken body = Inl e"
    by (rule submitQuiz_rejects)
next
  assume m: "getQuizById c (quiz_id body) = Some quiz' \<and>
    length (questions quiz') \<noteq> length (answers body)"
  then have "shape_check c body \<noteq> None" by (simp add: shape_check_def)
  then have "first_failure (checks_in_order c authToken body) \<noteq> None"
    unfolding all_checks_pass by blast
  then obtain e' where "first_failure (checks_in_order c authToken body) = Some e'" by blast
  then have "submitQuiz c authToken body = Inl e'" by (rule submitQuiz_rejects)
  then show "\<exists>e'. submitQuiz c authToken body = Inl e'" ..
qed

theorem graded_after_all_checks_witness:
  "submitQuiz hour_25_after_passing student_token (request ''book-B'' [''yes'', ''yes''])
     = Inr \<lparr>quiz_id = ''quiz-1'', student_id = ''stu-1'', book_id = ''book-B'',
            answers = [''yes'', ''yes''], date_created = 90000000, score = 100,
            passed = True, submission_oid = None, submission_comprehension = None\<rparr> \<and>
   new_Date hour_25_after_passing = 90000000 \<and>
   gradeQuiz hour_25_after_passing the_quiz [''yes'', ''yes''] = 100 \<and>
   PassingQuizGrade hour_25_after_passing = 80 \<and>
   getQuizById hour_25_after_passing (quiz_id (request ''book-B'' [''yes''])) = Some the_quiz \<and>
   length (questions the_quiz) \<noteq> length (answers (request ''book-B'' [''yes''])) \<and>
   (\<exists>e'. submitQuiz hour_25_after_passing student_token (request ''book-B'' [''yes'']) = Inl e')"
proof -
  let ?body = "request ''book-B'' [''yes'', ''yes'']"
  let ?s = "\<lparr>quiz_id = ''quiz-1'', student_id = ''stu-1'', book_id = ''book-B'',
            answers = [''yes'', ''yes''], date_created = 90000000, score = 100,
            passed = True, submission_oid = None, submission_comprehension = None\<rparr>"
  have pass: "identity_check student_token ?body = None \<and>
       student_check hour_25_after_passing ?body = None \<and>
       cooldown_check hour_25_after_passing ?body = None \<and>
       already_passed_check hour_25_after_passing ?body = None \<and>
       attempts_check hour_25_after_passing ?body = None \<and>
       book_check hour_25_after_passing ?body = None \<and>
       quiz_check hour_25_after_passing ?body = None \<and>
       shape_check hour_25_after_passing ?body = None \<and>
       answers_check hour_25_after_passing ?body = None"
    by code_simp
  have q: "getQuizById hour_25_after_passing (quiz_id ?body) = Some the_quiz"
    by (simp add: hour_25_after_passing_def platform_def request_def)
  have g: "?s = graded_submission hour_25_after_passing ?body the_quiz"
    by code_simp
  have accepted: "submitQuiz hour_25_after_passing student_token ?body = Inr ?s"
    using graded_after_all_checks [of hour_25_after_passing student_token ?body ?s] pass q g
    by blast
  have facts: "new_Date hour_25_after_passing = 90000000 \<and>
      gradeQuiz hour_25_after_passing the_quiz [''yes'', ''yes''] = 100 \<and>
      PassingQuizGrade hour_25_after_passing = 80"
    by code_simp
  have q': "getQuizById hour_25_after_passing (quiz_id (request ''book-B'' [''yes''])) = Some the_quiz"
    by (simp add: hour_25_after_passing_def platform_def request_def)
  have mismatch: "length (questions the_quiz) \<noteq> length (answers (request ''book-B'' [''yes'']))"
    by (simp add: the_quiz_def request_def)
  have "\<exists>e'. submitQuiz hour_25_after_passing student_token (request ''book-B'' [''yes'']) = Inl e'"
    using graded_after_all_checks
      [of hour_25_after_passing student_token "request ''book-B'' [''yes'']" _ _ _ the_quiz]
      q' mismatch
    by blast
  then show ?thesis using accepted facts q' mismatch by blast
qed

section \<open>The comprehension update keeps the other fields\<close>

text \<open>
  Claim C9. Whenever \<open>setComprehensionForSubmission\<close> writes a document back, that
  document is the stored submission with only \<open>comprehension\<close> changed: \<open>_id\<close>,
  \<open>quiz_id\<close>, \<open>student_id\<close>, \<open>book_id\<close>, \<open>answers\<close>, \<open>date_created\<close>, \<open>score\<close> and
  \<open>passed\<close> are those of the stored submission.
\<close>

theorem comprehension_update_frame:
  assumes "setComprehensionForSubmission c authToken submissionId n = Inr updated"
  shows "\<exists>submission.
           getSubmissionById c submissionId = Some submission \<and>
           updated = submission\<lparr>submission_comprehension := Some n\<rparr> \<and>
           submission_oid updated = submission_oid submission \<and>
           quiz_id updated = quiz_id submission \<and>
           student_id updated = student_id submission \<and>
           book_id updated = book_id submission \<and>
           answers updated = answers submission \<and>
           date_created updated = date_created submission \<and>
           score updated = score submission \<and>
           passed updated = passed submission \<and>
           submission_comprehension updated = Some n"
  using assms
  by (auto simp: setComprehensionForSubmission_def split: option.splits if_splits)

theorem comprehension_update_frame_witness:
  "setComprehensionForSubmission hour_25_after_passing student_token ''sub-1'' 4
     = Inr \<lparr>quiz_id = ''quiz-1'', student_id = ''stu-1'', book_id = ''book-A'',
            answers = [''yes'', ''no''], date_created = 0, score = 100, passed = True,
            submission_oid = Some ''sub-1'', submission_comprehension = Some 4\<rparr> \<and>
   getSubmissionById hour_25_after_passing ''sub-1''
     = Some \<lparr>quiz_id = ''quiz-1'', student_id = ''stu-1'', book_id = ''book-A'',
            answers = [''yes'', ''no''], date_created = 0, score = 100, passed = True,
            submission_oid = Some ''sub-1'', submission_comprehension = None\<rparr>"
proof -
  have r: "setComprehensionForSubmission hour_25_after_passing student_token ''sub-1'' 4
     = Inr \<lparr>quiz_id = ''quiz-1'', student_id = ''stu-1'', book_id = ''book-A'',
            answers = [''yes'', ''no''], date_created = 0, score = 100, passed = True,
            submission_oid = Some ''sub-1'', submission_comprehension = Some 4\<rparr>"
    by code_simp
  have g: "getSubmissionById hour_25_after_passing ''sub-1''
     = Some \<lparr>quiz_id = ''quiz-1'', student_id = ''stu-1'', book_id = ''book-A'',
            answers = [''yes'', ''no''], date_created = 0, score = 100, passed = True,
            submission_oid = Some ''sub-1'', submission_comprehension = None\<rparr>"
    by code_simp
  show ?thesis using r g comprehension_update_frame [OF r] by simp
qed

end
